theory Spec2Isabelle
  imports Main "HOL-Library.AList"
begin

section \<open>Values and exceptions\<close>

text \<open>
  The proxy handles decoded JSON documents as ordinary Python values. A dictionary is an
  association list: Python dictionaries keep insertion order, \<^verbatim>\<open>d[k] = v\<close> overwrites
  in place or appends at the end, which is what \<^const>\<open>AList.update\<close> does.
  A finite float is its mantissa and binary exponent; no operation of the program looks
  inside a number except for its truth value and its text.
\<close>

datatype json =
    JNull
  | JBool bool
  | JInt int
  | JFloat int int
  | JStr string
  | JArr "json list"
  | JObj "(string \<times> json) list"

datatype exc_kind =
    AttributeError
  | KeyError
  | IndexError
  | TypeError
  | ValueError
  | RuntimeError
  | JSONDecodeError
  | UnicodeDecodeError
  | UnboundLocalError
  | FileNotFoundError
  | NotImplementedError
  | OSError
  | MCPConnectionError
  | PlainException

text \<open>A raised exception: its class and the text that \<^verbatim>\<open>str(e)\<close> gives.\<close>

datatype error = Raise exc_kind string

fun exc_str :: "error \<Rightarrow> string" where
  "exc_str (Raise k m) = m"

fun exc_class :: "error \<Rightarrow> exc_kind" where
  "exc_class (Raise k m) = k"

text \<open>Python's truth value of a decoded JSON value.\<close>

fun truthy :: "json \<Rightarrow> bool" where
  "truthy JNull = False"
| "truthy (JBool b) = b"
| "truthy (JInt i) = (i \<noteq> 0)"
| "truthy (JFloat m e) = (m \<noteq> 0)"
| "truthy (JStr s) = (s \<noteq> [])"
| "truthy (JArr xs) = (xs \<noteq> [])"
| "truthy (JObj kvs) = (kvs \<noteq> [])"

text \<open>The name of a value's Python type, and the texts of Python's own error messages
  that mention it.\<close>

fun py_type_name :: "json \<Rightarrow> string" where
  "py_type_name JNull = ''NoneType''"
| "py_type_name (JBool b) = ''bool''"
| "py_type_name (JInt i) = ''int''"
| "py_type_name (JFloat m e) = ''float''"
| "py_type_name (JStr s) = ''str''"
| "py_type_name (JArr xs) = ''list''"
| "py_type_name (JObj kvs) = ''dict''"

definition quoted :: "string \<Rightarrow> string" where
  "quoted s = CHR 0x27 # s @ [CHR 0x27]"

definition no_attribute :: "string \<Rightarrow> string \<Rightarrow> string" where
  "no_attribute cls attr = quoted cls @ '' object has no attribute '' @ quoted attr"

definition object_is_not :: "json \<Rightarrow> string \<Rightarrow> string" where
  "object_is_not v what = quoted (py_type_name v) @ '' object is not '' @ what"

text \<open>\<^verbatim>\<open>s.split(c)\<close> for a one-character separator: every occurrence splits.\<close>

fun split_on :: "char \<Rightarrow> string \<Rightarrow> string list" where
  "split_on c [] = [[]]"
| "split_on c (x # xs) =
     (if x = c then [] # split_on c xs
      else (case split_on c xs of
              [] \<Rightarrow> [[x]]
            | y # ys \<Rightarrow> (x # y) # ys))"

section \<open>Schema translator (base\_client.py)\<close>

text \<open>
  \<^verbatim>\<open>_convert_input_schema\<close>. A falsy schema gives the three defaults. Otherwise the
  schema is copied and each of the three keys is added when absent. A list also has
  \<^verbatim>\<open>copy\<close> and \<^verbatim>\<open>in\<close>, but no item assignment by key; other values
  have no \<^verbatim>\<open>copy\<close>.
\<close>

definition ensure_key :: "string \<Rightarrow> json \<Rightarrow> (string \<times> json) list \<Rightarrow> (string \<times> json) list" where
  "ensure_key k v schema = (if k \<in> fst ` set schema then schema else AList.update k v schema)"

definition convert_input_schema :: "json \<Rightarrow> error + json" where
  "convert_input_schema input_schema =
     (if \<not> truthy input_schema then
        Inr (JObj [(''type'', JStr ''object''), (''properties'', JObj []), (''required'', JArr [])])
      else (case input_schema of
              JObj kvs \<Rightarrow>
                Inr (JObj (ensure_key ''required'' (JArr [])
                            (ensure_key ''properties'' (JObj [])
                              (ensure_key ''type'' (JStr ''object'') kvs))))
            | JArr xs \<Rightarrow>
                (if JStr ''type'' \<in> set xs \<and> JStr ''properties'' \<in> set xs \<and> JStr ''required'' \<in> set xs
                 then Inr (JArr xs)
                 else Inl (Raise TypeError ''list indices must be integers or slices, not str''))
            | _ \<Rightarrow> Inl (Raise AttributeError (no_attribute (py_type_name input_schema) ''copy''))))"

text \<open>
  A tool as a provider declares it, in the two formats \<^verbatim>\<open>_convert_single_tool\<close>
  accepts: an object with a \<^verbatim>\<open>name\<close> attribute (what the protocol library
  returns; the schema attribute may be absent), or a dictionary. In both the name and the
  description are strings when present.
\<close>

datatype mcp_tool =
    ToolObject string "string option" "json option"
  | ToolDict "string option" "string option" "json option"

fun tool_name :: "mcp_tool \<Rightarrow> string option" where
  "tool_name (ToolObject n d s) = Some n"
| "tool_name (ToolDict n d s) = n"

fun tool_description :: "mcp_tool \<Rightarrow> string" where
  "tool_description (ToolObject n d s) = (case d of None \<Rightarrow> [] | Some t \<Rightarrow> t)"
| "tool_description (ToolDict n d s) = (case d of None \<Rightarrow> [] | Some t \<Rightarrow> t)"

fun tool_input_schema :: "mcp_tool \<Rightarrow> json" where
  "tool_input_schema (ToolObject n d s) = (case s of None \<Rightarrow> JObj [] | Some j \<Rightarrow> j)"
| "tool_input_schema (ToolDict n d s) = (case s of None \<Rightarrow> JObj [] | Some j \<Rightarrow> j)"

definition qualified_name :: "string \<Rightarrow> string \<Rightarrow> string" where
  "qualified_name namespace name = namespace @ ''.'' @ name"

definition convert_single_tool :: "string \<Rightarrow> mcp_tool \<Rightarrow> error + json" where
  "convert_single_tool namespace mcp_tool =
     (case tool_name mcp_tool of
        None \<Rightarrow> Inl (Raise RuntimeError ''Tool missing name, skipping'')
      | Some name \<Rightarrow>
          if name = [] then Inl (Raise RuntimeError ''Tool missing name, skipping'')
          else (case convert_input_schema (tool_input_schema mcp_tool) of
                  Inl e \<Rightarrow> Inl e
                | Inr parameters \<Rightarrow>
                    Inr (JObj
                      [(''type'', JStr ''function''),
                       (''function'', JObj
                          [(''name'', JStr (qualified_name namespace name)),
                           (''description'',
                              JStr (if tool_description mcp_tool \<noteq> [] then tool_description mcp_tool
                                    else ''Execute '' @ name @ '' tool'')),
                           (''parameters'', parameters)])])))"

text \<open>
  \<^verbatim>\<open>_convert_mcp_tools_to_openai\<close>: a tool that fails to convert is skipped, after a
  warning that reads the tool's name with \<^verbatim>\<open>mcp_tool.get\<close>; an object-format tool has
  no such method, so the handler itself raises there and the loop is left.
\<close>

fun convert_mcp_tools_to_openai :: "string \<Rightarrow> mcp_tool list \<Rightarrow> error + json list" where
  "convert_mcp_tools_to_openai namespace [] = Inr []"
| "convert_mcp_tools_to_openai namespace (t # ts) =
     (case convert_single_tool namespace t of
        Inr openai_tool \<Rightarrow>
          (case convert_mcp_tools_to_openai namespace ts of
             Inl e \<Rightarrow> Inl e
           | Inr rest \<Rightarrow> Inr (openai_tool # rest))
      | Inl e \<Rightarrow>
          (case t of
             ToolObject n d s \<Rightarrow> Inl (Raise AttributeError (no_attribute ''Tool'' ''get''))
           | ToolDict n d s \<Rightarrow> convert_mcp_tools_to_openai namespace ts))"

text \<open>
  The split step of \<^verbatim>\<open>execute_tool_calls\<close>:
  \<^verbatim>\<open>namespace, tool_name = tool_name.split(".")\<close>. Unpacking needs exactly two parts.
\<close>

definition split_tool_name :: "string \<Rightarrow> error + string \<times> string" where
  "split_tool_name qualified =
     (case split_on CHR ''.'' qualified of
        [namespace, tool] \<Rightarrow> Inr (namespace, tool)
      | [] \<Rightarrow> Inl (Raise ValueError ''not enough values to unpack (expected 2, got 0)'')
      | [a] \<Rightarrow> Inl (Raise ValueError ''not enough values to unpack (expected 2, got 1)'')
      | _ \<Rightarrow> Inl (Raise ValueError ''too many values to unpack (expected 2)''))"

section \<open>Collaborators outside the repository\<close>

text \<open>
  What the program obtains from its libraries and from the outside world is taken as a
  parameter, so that every theorem holds whatever they answer. \<open>'w\<close> is the state of
  the world outside the process (provider subprocesses, the upstream API); each call that
  reaches it takes the world and returns the next one.
\<close>

datatype field_type =
    TStr
  | TFloat
  | TList field_type
  | TDict field_type field_type
  | TLiteral "string list"
  | TOptional field_type

text \<open>The result of one call to the upstream API: status, headers, and the whole body.\<close>

record http_response =
  status :: int
  headers :: "(string \<times> string) list"
  content :: string

text \<open>One item of a tool call's result: a text item, or an item of another class.\<close>

datatype content_item = TextContent string | OtherContent string

text \<open>
  How far the connect sequence of a provider got: opening the subprocess transport,
  entering the client session, \<^verbatim>\<open>initialize\<close>, \<^verbatim>\<open>list_tools\<close>. Each
  failure carries the text of its exception.
\<close>

datatype handshake =
    TransportFailed string
  | SessionFailed string
  | InitializeFailed string
  | ListToolsFailed string
  | Listed "mcp_tool list"

text \<open>
  \<open>json_loads\<close> is \<^verbatim>\<open>json.loads\<close> on a string: the decoded value, or none when
  it raises \<^verbatim>\<open>JSONDecodeError\<close>. \<open>json_loads_bytes\<close> is \<^verbatim>\<open>json.loads\<close> on
  the bytes of a body, which can also raise \<^verbatim>\<open>UnicodeDecodeError\<close>, so it gives the
  exception. \<open>float_str\<close> is \<^verbatim>\<open>str\<close> on a float.
\<close>

record 'w env =
  json_loads :: "string \<Rightarrow> json option"
  json_loads_bytes :: "string \<Rightarrow> error + json"
  json_dumps :: "json \<Rightarrow> string"
  float_str :: "int \<Rightarrow> int \<Rightarrow> string"
  is_instance :: "json \<Rightarrow> field_type \<Rightarrow> bool"
  read_file :: "string \<Rightarrow> error + string"
  open_session :: "string \<Rightarrow> (string \<times> json) list \<Rightarrow> 'w \<Rightarrow> handshake \<times> 'w"
  close_contexts :: "string \<Rightarrow> 'w \<Rightarrow> string option \<times> 'w"
  session_call_tool :: "string \<Rightarrow> string \<Rightarrow> json \<Rightarrow> 'w \<Rightarrow> (string + content_item list) \<times> 'w"
  session_request ::
    "string \<Rightarrow> string \<Rightarrow> (string \<times> string) list \<Rightarrow> json option \<Rightarrow> 'w \<Rightarrow> (string + http_response) \<times> 'w"

section \<open>Config resolver (schemas.py, register.py)\<close>

datatype config_type = StdioServerConfig | SSEServerConfig

text \<open>A dataclass field: its name, its declared type, and its default when it has one.\<close>

datatype field = Field string field_type "json option"

fun field_name :: "field \<Rightarrow> string" where
  "field_name (Field n t d) = n"

fun fields_of :: "config_type \<Rightarrow> field list" where
  "fields_of StdioServerConfig =
     [Field ''command'' TStr None,
      Field ''args'' (TOptional (TList TStr)) (Some JNull),
      Field ''env'' (TOptional (TDict TStr TStr)) (Some JNull),
      Field ''timeout'' (TOptional TFloat) (Some JNull)]"
| "fields_of SSEServerConfig =
     [Field ''url'' TStr None,
      Field ''transport'' (TOptional TStr) (Some JNull),
      Field ''headers'' (TOptional (TDict TStr (TLiteral [''sse'', ''websocket'']))) (Some JNull)]"

fun class_name :: "config_type \<Rightarrow> string" where
  "class_name StdioServerConfig = ''StdioServerConfig''"
| "class_name SSEServerConfig = ''SSEServerConfig''"

text \<open>An instance of one of the two dataclasses: its class and its field values.\<close>

datatype server_config = ServerConfig config_type "(string \<times> json) list"

datatype dacite_error = UnexpectedDataError | WrongTypeError string | MissingValueError string

text \<open>
  \<^verbatim>\<open>dacite.from_dict(data_class, data, Config(strict=True))\<close>, the library's contract:
  a key of the data that is no field of the class is refused first; then each field, in
  declaration order, takes the data's value, which must have the declared type, or its
  default, and a field with neither is refused.
\<close>

fun build_fields :: "(json \<Rightarrow> field_type \<Rightarrow> bool) \<Rightarrow> field list \<Rightarrow> (string \<times> json) list
    \<Rightarrow> dacite_error + (string \<times> json) list" where
  "build_fields inst [] data = Inr []"
| "build_fields inst (Field n t d # fs) data =
     (case map_of data n of
        Some v \<Rightarrow>
          (if inst v t then
             (case build_fields inst fs data of Inl e \<Rightarrow> Inl e | Inr vs \<Rightarrow> Inr ((n, v) # vs))
           else Inl (WrongTypeError n))
      | None \<Rightarrow>
          (case d of
             Some dv \<Rightarrow>
               (case build_fields inst fs data of Inl e \<Rightarrow> Inl e | Inr vs \<Rightarrow> Inr ((n, dv) # vs))
           | None \<Rightarrow> Inl (MissingValueError n)))"

definition from_dict :: "'w env \<Rightarrow> config_type \<Rightarrow> (string \<times> json) list \<Rightarrow> dacite_error + server_config" where
  "from_dict env data_class data =
     (if \<exists>k \<in> set (map fst data). k \<notin> set (map field_name (fields_of data_class))
      then Inl UnexpectedDataError
      else (case build_fields (is_instance env) (fields_of data_class) data of
              Inl e \<Rightarrow> Inl e
            | Inr vs \<Rightarrow> Inr (ServerConfig data_class vs)))"

definition config_types :: "config_type list" where
  "config_types = [StdioServerConfig, SSEServerConfig]"

text \<open>\<^verbatim>\<open>MCPClientRegister._parse_config\<close>: the first class of the list that accepts the
  descriptor; a \<^verbatim>\<open>ValueError\<close> when none does.\<close>

fun try_config_types :: "'w env \<Rightarrow> config_type list \<Rightarrow> (string \<times> json) list \<Rightarrow> server_config option" where
  "try_config_types env [] config_dict = None"
| "try_config_types env (config_type # rest) config_dict =
     (case from_dict env config_type config_dict of
        Inr c \<Rightarrow> Some c
      | Inl e \<Rightarrow> try_config_types env rest config_dict)"

definition parse_config :: "'w env \<Rightarrow> (string \<times> json) list \<Rightarrow> error + server_config" where
  "parse_config env config_dict =
     (case try_config_types env config_types config_dict of
        Some c \<Rightarrow> Inr c
      | None \<Rightarrow>
          Inl (Raise ValueError
            (''Configuration doesn't match any known types: ''
              @ ''['' @ CHR 0x27 # class_name StdioServerConfig @ CHR 0x27 # '', ''
              @ CHR 0x27 # class_name SSEServerConfig @ CHR 0x27 # '']'')))"

section \<open>Tool client (mcp\_enums.py, base\_client.py, stdio\_client.py)\<close>

datatype connection_state = DISCONNECTED | CONNECTING | CONNECTED | ERROR

text \<open>
  The attributes of \<^verbatim>\<open>MCPStdioClient\<close>. \<open>session\<close> tells whether the session
  attribute holds a session; \<open>exit_stack\<close> is \<open>None\<close> until the first connect and then
  the number of contexts the stack still has to close.
\<close>

record mcp_client =
  name :: string
  state :: connection_state
  session :: bool
  exit_stack :: "nat option"
  mcp_tools :: "mcp_tool list option"
  openai_tools :: "json list option"
  stdio_params :: "(string \<times> json) list"

definition is_connected :: "mcp_client \<Rightarrow> bool" where
  "is_connected c = (state c = CONNECTED)"

text \<open>\<^verbatim>\<open>await self.exit_stack.aclose()\<close>: closes what the stack holds; an empty stack
  closes nothing.\<close>

definition aclose :: "'w env \<Rightarrow> mcp_client \<Rightarrow> 'w \<Rightarrow> error option \<times> mcp_client \<times> 'w" where
  "aclose env c w =
     (case exit_stack c of
        None \<Rightarrow> (Some (Raise AttributeError (no_attribute ''NoneType'' ''aclose'')), c, w)
      | Some k \<Rightarrow>
          if k = 0 then (None, c, w)
          else (case close_contexts env (name c) w of
                  (None, w') \<Rightarrow> (None, c\<lparr>exit_stack := Some 0\<rparr>, w')
                | (Some m, w') \<Rightarrow> (Some (Raise PlainException m), c\<lparr>exit_stack := Some 0\<rparr>, w')))"

text \<open>The handler of \<^verbatim>\<open>connect\<close>: the state becomes \<^verbatim>\<open>ERROR\<close>, the stack is
  closed, the session dropped, and \<^verbatim>\<open>MCPConnectionError\<close> raised with the cause's text.\<close>

definition connect_failed :: "'w env \<Rightarrow> string \<Rightarrow> mcp_client \<Rightarrow> 'w \<Rightarrow> (error + unit) \<times> mcp_client \<times> 'w" where
  "connect_failed env cause c w =
     (case aclose env (c\<lparr>state := ERROR\<rparr>) w of
        (Some e, c', w') \<Rightarrow> (Inl e, c', w')
      | (None, c', w') \<Rightarrow> (Inl (Raise MCPConnectionError cause), c'\<lparr>session := False\<rparr>, w'))"

definition connect :: "'w env \<Rightarrow> mcp_client \<Rightarrow> 'w \<Rightarrow> (error + unit) \<times> mcp_client \<times> 'w" where
  "connect env c w =
     (if state c = CONNECTED then (Inr (), c, w)
      else
        (let c1 = c\<lparr>state := CONNECTING, exit_stack := Some 0\<rparr> in
         case open_session env (name c) (stdio_params c) w of
           (TransportFailed m, w') \<Rightarrow> connect_failed env m c1 w'
         | (SessionFailed m, w') \<Rightarrow> connect_failed env m (c1\<lparr>exit_stack := Some 1\<rparr>) w'
         | (InitializeFailed m, w') \<Rightarrow>
             connect_failed env m (c1\<lparr>exit_stack := Some 2, session := True\<rparr>) w'
         | (ListToolsFailed m, w') \<Rightarrow>
             connect_failed env m (c1\<lparr>exit_stack := Some 2, session := True\<rparr>) w'
         | (Listed tools, w') \<Rightarrow>
             (let c2 = c1\<lparr>exit_stack := Some 2, session := True, mcp_tools := Some tools\<rparr> in
              case convert_mcp_tools_to_openai (name c) tools of
                Inl e \<Rightarrow> connect_failed env (exc_str e) c2 w'
              | Inr converted \<Rightarrow>
                  (Inr (), c2\<lparr>openai_tools := Some converted, state := CONNECTED\<rparr>, w'))))"

definition list_tools :: "mcp_client \<Rightarrow> error + json list" where
  "list_tools c =
     (if \<not> is_connected c then Inl (Raise RuntimeError (''Not connected to '' @ name c))
      else Inr (case openai_tools c of None \<Rightarrow> [] | Some ts \<Rightarrow> ts))"

text \<open>\<^verbatim>\<open>call_tool\<close> returns the text of the first item of the result. Whatever the
  session call or the reading of the result raises is logged and raised again.\<close>

definition call_tool :: "'w env \<Rightarrow> mcp_client \<Rightarrow> string \<Rightarrow> json \<Rightarrow> 'w \<Rightarrow> (error + json) \<times> 'w" where
  "call_tool env c tool arguments w =
     (if \<not> is_connected c then (Inl (Raise RuntimeError (''Not connected to '' @ name c)), w)
      else if \<not> session c then
        (Inl (Raise AttributeError (no_attribute ''NoneType'' ''call_tool'')), w)
      else (case session_call_tool env (name c) tool arguments w of
              (Inl m, w') \<Rightarrow> (Inl (Raise PlainException m), w')
            | (Inr [], w') \<Rightarrow> (Inl (Raise IndexError ''list index out of range''), w')
            | (Inr (TextContent t # rest), w') \<Rightarrow> (Inr (JStr t), w')
            | (Inr (OtherContent cls # rest), w') \<Rightarrow>
                (Inl (Raise AttributeError (no_attribute cls ''text'')), w')))"

text \<open>\<^verbatim>\<open>disconnect\<close>. (The source also sets an attribute \<^verbatim>\<open>tools\<close>, which nothing
  reads.)\<close>

definition disconnect :: "'w env \<Rightarrow> mcp_client \<Rightarrow> 'w \<Rightarrow> (error + unit) \<times> mcp_client \<times> 'w" where
  "disconnect env c w =
     (if state c \<noteq> DISCONNECTED then
        (case aclose env c w of
           (Some e, c', w') \<Rightarrow> (Inl e, c', w')
         | (None, c', w') \<Rightarrow> (Inr (), c'\<lparr>session := False, state := DISCONNECTED\<rparr>, w'))
      else (Inr (), c, w))"

text \<open>\<^verbatim>\<open>BaseMCPClient.__init__\<close> and \<^verbatim>\<open>MCPStdioClient.__init__\<close>.\<close>

definition new_client :: "string \<Rightarrow> (string \<times> json) list \<Rightarrow> mcp_client" where
  "new_client n params =
     \<lparr>name = n, state = DISCONNECTED, session = False, exit_stack = None,
      mcp_tools = None, openai_tools = None, stdio_params = params\<rparr>"

section \<open>Tool-call resolver (main.py)\<close>

text \<open>Python's \<^verbatim>\<open>d[k]\<close>, \<^verbatim>\<open>d.get(k, default)\<close> and iteration, on a decoded
  JSON value and a string key.\<close>

definition py_getitem :: "json \<Rightarrow> string \<Rightarrow> error + json" where
  "py_getitem d k =
     (case d of
        JObj kvs \<Rightarrow> (case map_of kvs k of None \<Rightarrow> Inl (Raise KeyError (quoted k)) | Some v \<Rightarrow> Inr v)
      | JArr xs \<Rightarrow> Inl (Raise TypeError ''list indices must be integers or slices, not str'')
      | JStr s \<Rightarrow> Inl (Raise TypeError (''string indices must be integers, not '' @ quoted ''str''))
      | _ \<Rightarrow> Inl (Raise TypeError (object_is_not d ''subscriptable'')))"

definition py_get :: "json \<Rightarrow> string \<Rightarrow> json \<Rightarrow> error + json" where
  "py_get d k dflt =
     (case d of
        JObj kvs \<Rightarrow> Inr (case map_of kvs k of None \<Rightarrow> dflt | Some v \<Rightarrow> v)
      | _ \<Rightarrow> Inl (Raise AttributeError (no_attribute (py_type_name d) ''get'')))"

definition py_iter :: "json \<Rightarrow> error + json list" where
  "py_iter v =
     (case v of
        JArr xs \<Rightarrow> Inr xs
      | JObj kvs \<Rightarrow> Inr (map (\<lambda>kv. JStr (fst kv)) kvs)
      | JStr s \<Rightarrow> Inr (map (\<lambda>ch. JStr [ch]) s)
      | _ \<Rightarrow> Inl (Raise TypeError (object_is_not v ''iterable'')))"

text \<open>The registry \<^verbatim>\<open>connected_servers\<close>: provider name to client, in insertion order.\<close>

type_synonym registry = "(string \<times> mcp_client) list"

text \<open>
  Lines 132 to 134 of \<^verbatim>\<open>execute_tool_calls\<close>: the qualified name, the decoded
  arguments and the call identifier, read in this order; the first failure raises.
\<close>

definition py_json_loads :: "'w env \<Rightarrow> json \<Rightarrow> error + json" where
  "py_json_loads env v =
     (case v of
        JStr s \<Rightarrow>
          (case json_loads env s of
             None \<Rightarrow> Inl (Raise JSONDecodeError ''Expecting value'')
           | Some j \<Rightarrow> Inr j)
      | _ \<Rightarrow>
          Inl (Raise TypeError
            (''the JSON object must be str, bytes or bytearray, not '' @ py_type_name v)))"

definition tool_call_fields :: "'w env \<Rightarrow> json \<Rightarrow> error + json \<times> json \<times> json" where
  "tool_call_fields env tool_call =
     (case py_getitem tool_call ''function'' of
        Inl e \<Rightarrow> Inl e
      | Inr f \<Rightarrow>
     (case py_getitem f ''name'' of
        Inl e \<Rightarrow> Inl e
      | Inr qualified \<Rightarrow>
     (case py_getitem f ''arguments'' of
        Inl e \<Rightarrow> Inl e
      | Inr a \<Rightarrow>
     (case py_json_loads env a of
        Inl e \<Rightarrow> Inl e
      | Inr tool_args \<Rightarrow>
     (case py_getitem tool_call ''id'' of
        Inl e \<Rightarrow> Inl e
      | Inr tool_call_id \<Rightarrow> Inr (qualified, tool_args, tool_call_id))))))"

definition py_split_name :: "json \<Rightarrow> error + string \<times> string" where
  "py_split_name qualified =
     (case qualified of
        JStr s \<Rightarrow> split_tool_name s
      | _ \<Rightarrow> Inl (Raise AttributeError (no_attribute (py_type_name qualified) ''split'')))"

text \<open>The text of a tool's result: JSON for a dictionary or a list, \<^verbatim>\<open>str\<close> otherwise.\<close>

fun digit_str :: "nat \<Rightarrow> string" where
  "digit_str n =
     (if n < 10 then [char_of (48 + n)]
      else digit_str (n div 10) @ [char_of (48 + n mod 10)])"

definition int_str :: "int \<Rightarrow> string" where
  "int_str i = (if i < 0 then CHR ''-'' # digit_str (nat (- i)) else digit_str (nat i))"

definition result_content :: "'w env \<Rightarrow> json \<Rightarrow> string" where
  "result_content env tool_result =
     (case tool_result of
        JObj kvs \<Rightarrow> json_dumps env tool_result
      | JArr xs \<Rightarrow> json_dumps env tool_result
      | JStr s \<Rightarrow> s
      | JInt i \<Rightarrow> int_str i
      | JFloat m e \<Rightarrow> float_str env m e
      | JBool b \<Rightarrow> (if b then ''True'' else ''False'')
      | JNull \<Rightarrow> ''None'')"

definition tool_message :: "json \<Rightarrow> string \<Rightarrow> json" where
  "tool_message tool_call_id text =
     JObj [(''role'', JStr ''tool''), (''tool_call_id'', tool_call_id), (''content'', JStr text)]"

text \<open>
  Lines 138 to 167: the lookup in the registry with the empty dictionary as default, and
  the guarded call. An empty dictionary has no \<^verbatim>\<open>call_tool\<close>, so for an unknown
  namespace the attribute lookup raises inside the guarded block.
\<close>

definition dispatch_tool :: "'w env \<Rightarrow> registry \<Rightarrow> string \<Rightarrow> string \<Rightarrow> json \<Rightarrow> 'w \<Rightarrow> (error + json) \<times> 'w" where
  "dispatch_tool env connected_servers namespace tool tool_args w =
     (case map_of connected_servers namespace of
        None \<Rightarrow> (Inl (Raise AttributeError (no_attribute ''dict'' ''call_tool'')), w)
      | Some mcp_tool \<Rightarrow> call_tool env mcp_tool tool tool_args w)"

definition run_tool_call :: "'w env \<Rightarrow> registry \<Rightarrow> json \<Rightarrow> 'w \<Rightarrow> (error + json) \<times> 'w" where
  "run_tool_call env connected_servers tool_call w =
     (case tool_call_fields env tool_call of
        Inl e \<Rightarrow> (Inl e, w)
      | Inr (qualified, tool_args, tool_call_id) \<Rightarrow>
          (case py_split_name qualified of
             Inl e \<Rightarrow> (Inl e, w)
           | Inr (namespace, tool) \<Rightarrow>
               (case dispatch_tool env connected_servers namespace tool tool_args w of
                  (Inr tool_result, w') \<Rightarrow>
                    (Inr (tool_message tool_call_id (result_content env tool_result)), w')
                | (Inl e, w') \<Rightarrow>
                    (Inr (tool_message tool_call_id (''Error executing tool: '' @ exc_str e)), w'))))"

text \<open>The loop of \<^verbatim>\<open>execute_tool_calls\<close> with its list of messages so far.\<close>

fun run_tool_calls :: "'w env \<Rightarrow> registry \<Rightarrow> json list \<Rightarrow> json list \<Rightarrow> 'w \<Rightarrow> (error + json list) \<times> 'w" where
  "run_tool_calls env connected_servers [] messages w = (Inr messages, w)"
| "run_tool_calls env connected_servers (tool_call # rest) messages w =
     (case run_tool_call env connected_servers tool_call w of
        (Inl e, w') \<Rightarrow> (Inl e, w')
      | (Inr m, w') \<Rightarrow> run_tool_calls env connected_servers rest (messages @ [m]) w')"

definition assistant_message :: "json \<Rightarrow> json" where
  "assistant_message tool_calls =
     JObj [(''role'', JStr ''assistant''), (''content'', JStr []), (''tool_calls'', tool_calls)]"

definition execute_tool_calls :: "'w env \<Rightarrow> registry \<Rightarrow> json \<Rightarrow> 'w \<Rightarrow> (error + json list) \<times> 'w" where
  "execute_tool_calls env connected_servers tool_calls w =
     (case py_iter tool_calls of
        Inl e \<Rightarrow> (Inl e, w)
      | Inr calls \<Rightarrow>
          run_tool_calls env connected_servers calls [assistant_message tool_calls] w)"

section \<open>Resolution loop and request forwarder (main.py)\<close>

text \<open>The process configuration, set once by \<^verbatim>\<open>main\<close> from the command line.\<close>

record config =
  OPENAI_API_BASE_URL :: string
  ENABLE_MCP :: bool
  MAX_ITERATION :: int
  MCP_CONFIG_PATH :: string

text \<open>Python's \<^verbatim>\<open>len(x)\<close> and \<^verbatim>\<open>x[0]\<close>.\<close>

definition py_len :: "json \<Rightarrow> error + nat" where
  "py_len v =
     (case v of
        JArr xs \<Rightarrow> Inr (length xs)
      | JObj kvs \<Rightarrow> Inr (length kvs)
      | JStr s \<Rightarrow> Inr (length s)
      | _ \<Rightarrow> Inl (Raise TypeError (''object of type '' @ quoted (py_type_name v) @ '' has no len()'')))"

definition py_first :: "json \<Rightarrow> error + json" where
  "py_first v =
     (case v of
        JArr xs \<Rightarrow> (case xs of [] \<Rightarrow> Inl (Raise IndexError ''list index out of range'') | x # rest \<Rightarrow> Inr x)
      | JStr s \<Rightarrow> (case s of [] \<Rightarrow> Inl (Raise IndexError ''string index out of range'') | ch # rest \<Rightarrow> Inr (JStr [ch]))
      | JObj kvs \<Rightarrow> Inl (Raise KeyError ''0'')
      | _ \<Rightarrow> Inl (Raise TypeError (object_is_not v ''subscriptable'')))"

definition parse_tools_from_response :: "json \<Rightarrow> error + json" where
  "parse_tools_from_response response_data =
     (case py_get response_data ''choices'' JNull of
        Inl e \<Rightarrow> Inl e
      | Inr choices \<Rightarrow>
          if \<not> truthy choices then Inr (JArr [])
          else
     (case py_len choices of
        Inl e \<Rightarrow> Inl e
      | Inr n \<Rightarrow>
          if \<not> 0 < n then Inr (JArr [])
          else
     (case py_first choices of
        Inl e \<Rightarrow> Inl e
      | Inr choice \<Rightarrow>
     (case py_get choice ''message'' (JObj []) of
        Inl e \<Rightarrow> Inl e
      | Inr message \<Rightarrow>
     (case py_get message ''tool_calls'' JNull of
        Inl e \<Rightarrow> Inl e
      | Inr tool_calls \<Rightarrow> if truthy tool_calls then Inr tool_calls else Inr (JArr []))))))"

text \<open>\<^verbatim>\<open>request.get("messages", []).copy()\<close> and \<^verbatim>\<open>messages.extend(...)\<close>:
  lists and dictionaries have \<^verbatim>\<open>copy\<close>, only lists have \<^verbatim>\<open>extend\<close>.\<close>

definition messages_copy :: "json \<Rightarrow> error + json" where
  "messages_copy request =
     (case py_get request ''messages'' (JArr []) of
        Inl e \<Rightarrow> Inl e
      | Inr v \<Rightarrow>
          (case v of
             JArr xs \<Rightarrow> Inr v
           | JObj kvs \<Rightarrow> Inr v
           | _ \<Rightarrow> Inl (Raise AttributeError (no_attribute (py_type_name v) ''copy''))))"

definition messages_extend :: "json \<Rightarrow> json list \<Rightarrow> error + json list" where
  "messages_extend messages tool_responses =
     (case messages of
        JArr xs \<Rightarrow> Inr (xs @ tool_responses)
      | _ \<Rightarrow> Inl (Raise AttributeError (no_attribute ''dict'' ''extend'')))"

text \<open>
  One resolution of a batch, as \<^verbatim>\<open>handle_tool_calls\<close> does it before the loop (lines
  179 to 181) and inside it (lines 204 to 206): copy the conversation, execute the batch,
  append the assistant message and the results.
\<close>

definition resolve_batch :: "'w env \<Rightarrow> registry \<Rightarrow> json \<Rightarrow> json \<Rightarrow> 'w \<Rightarrow> (error + json list) \<times> 'w" where
  "resolve_batch env connected_servers tool_calls request w =
     (case messages_copy request of
        Inl e \<Rightarrow> (Inl e, w)
      | Inr messages \<Rightarrow>
          (case execute_tool_calls env connected_servers tool_calls w of
             (Inl e, w') \<Rightarrow> (Inl e, w')
           | (Inr tool_responses, w') \<Rightarrow>
               (case messages_extend messages tool_responses of
                  Inl e \<Rightarrow> (Inl e, w')
                | Inr extended \<Rightarrow> (Inr extended, w'))))"

definition chat_url :: "config \<Rightarrow> string" where
  "chat_url cfg = OPENAI_API_BASE_URL cfg @ ''/chat/completions''"

definition max_iteration_msg :: "config \<Rightarrow> string" where
  "max_iteration_msg cfg = ''Reached Max iteration of '' @ int_str (MAX_ITERATION cfg) @ ''.''"

text \<open>
  The loop of \<^verbatim>\<open>handle_tool_calls\<close> (lines 192 to 220) with the iterations left,
  the follow-up request, and \<^verbatim>\<open>final_response\<close>, which is unbound until a round
  answers with status 200.
\<close>

fun follow_up_loop :: "'w env \<Rightarrow> config \<Rightarrow> registry \<Rightarrow> (string \<times> string) list \<Rightarrow> nat
    \<Rightarrow> (string \<times> json) list \<Rightarrow> json option \<Rightarrow> 'w \<Rightarrow> (error + json) \<times> 'w" where
  "follow_up_loop env cfg connected_servers hdrs 0 follow_up_request final_response w =
     (Inl (Raise RuntimeError (max_iteration_msg cfg)), w)"
| "follow_up_loop env cfg connected_servers hdrs (Suc n) follow_up_request final_response w =
     (case session_request env ''POST'' (chat_url cfg) hdrs (Some (JObj follow_up_request)) w of
        (Inl m, w1) \<Rightarrow> (Inl (Raise PlainException m), w1)
      | (Inr follow_up_response, w1) \<Rightarrow>
          if status follow_up_response = 200 then
            (case json_loads_bytes env (content follow_up_response) of
               Inl e \<Rightarrow> (Inl e, w1)
             | Inr parsed \<Rightarrow>
                 (case parse_tools_from_response parsed of
                    Inl e \<Rightarrow> (Inl e, w1)
                  | Inr tool_calls \<Rightarrow>
                      if truthy tool_calls then
                        (case resolve_batch env connected_servers tool_calls (JObj follow_up_request) w1 of
                           (Inl e, w2) \<Rightarrow> (Inl e, w2)
                         | (Inr messages, w2) \<Rightarrow>
                             follow_up_loop env cfg connected_servers hdrs n
                               (AList.update ''messages'' (JArr messages) follow_up_request)
                               (Some parsed) w2)
                      else (Inr parsed, w1)))
          else
            (case final_response of
               None \<Rightarrow>
                 (Inl (Raise UnboundLocalError
                    ''cannot access local variable 'final_response' where it is not associated with a value''), w1)
             | Some stale \<Rightarrow> (Inr stale, w1)))"

definition handle_tool_calls :: "'w env \<Rightarrow> config \<Rightarrow> registry \<Rightarrow> json \<Rightarrow> (string \<times> json) list
    \<Rightarrow> (string \<times> string) list \<Rightarrow> 'w \<Rightarrow> (error + json) \<times> 'w" where
  "handle_tool_calls env cfg connected_servers tool_calls original_request hdrs w =
     (case resolve_batch env connected_servers tool_calls (JObj original_request) w of
        (Inl e, w') \<Rightarrow> (Inl e, w')
      | (Inr messages, w') \<Rightarrow>
          follow_up_loop env cfg connected_servers hdrs (nat (MAX_ITERATION cfg))
            (AList.delete ''tool_choice'' (AList.update ''messages'' (JArr messages) original_request))
            None w')"

text \<open>The inbound request and the three kinds of response \<^verbatim>\<open>proxy_request\<close> builds.\<close>

record request =
  request_method :: string
  request_headers :: "(string \<times> string) list"
  body :: string

datatype response =
    Response string int "(string \<times> string) list"
  | JsonResponse json int
  | StreamResponse int "(string \<times> string) list" string

definition lower_char :: "char \<Rightarrow> char" where
  "lower_char ch =
     (let n = (of_char ch :: nat) in if 65 \<le> n \<and> n \<le> 90 then char_of (n + 32) else ch)"

definition excluded_headers :: "string list" where
  "excluded_headers =
     [''host'', ''content-length'', ''content-encoding'', ''connection'', ''upgrade'',
      ''proxy-connection'', ''trailer'']"

definition forward_headers :: "(string \<times> string) list \<Rightarrow> (string \<times> string) list" where
  "forward_headers hs =
     foldl (\<lambda>acc kv. if map lower_char (fst kv) \<in> set excluded_headers then acc
                       else AList.update (fst kv) (snd kv) acc) [] hs"

fun get_mcp_tools :: "registry \<Rightarrow> error + json list" where
  "get_mcp_tools [] = Inr []"
| "get_mcp_tools ((server_name, mcp_server) # rest) =
     (case openai_tools mcp_server of
        None \<Rightarrow> Inl (Raise TypeError (object_is_not JNull ''iterable''))
      | Some ts \<Rightarrow>
          (case get_mcp_tools rest of
             Inl e \<Rightarrow> Inl e
           | Inr others \<Rightarrow> Inr (ts @ others)))"

fun is_substring :: "string \<Rightarrow> string \<Rightarrow> bool" where
  "is_substring p [] = (p = [])"
| "is_substring p (x # xs) = (take (length p) (x # xs) = p \<or> is_substring p xs)"

text \<open>Lines 65 to 67: \<^verbatim>\<open>"tools" not in request_data\<close> and the item assignment, on
  whatever value the request body decoded to.\<close>

definition inject_tools_into :: "registry \<Rightarrow> bool \<Rightarrow> json \<Rightarrow> error + json" where
  "inject_tools_into connected_servers inject_tools request_data =
     (if \<not> inject_tools then Inr request_data
      else (case request_data of
              JObj kvs \<Rightarrow>
                (if ''tools'' \<in> set (map fst kvs) then Inr request_data
                 else (case get_mcp_tools connected_servers of
                         Inl e \<Rightarrow> Inl e
                       | Inr tools \<Rightarrow> Inr (JObj (AList.update ''tools'' (JArr tools) kvs))))
            | JArr xs \<Rightarrow>
                (if JStr ''tools'' \<in> set xs then Inr request_data
                 else (case get_mcp_tools connected_servers of
                         Inl e \<Rightarrow> Inl e
                       | Inr tools \<Rightarrow>
                           Inl (Raise TypeError ''list indices must be integers or slices, not str'')))
            | JStr s \<Rightarrow>
                (if is_substring ''tools'' s then Inr request_data
                 else (case get_mcp_tools connected_servers of
                         Inl e \<Rightarrow> Inl e
                       | Inr tools \<Rightarrow>
                           Inl (Raise TypeError
                             (quoted ''str'' @ '' object does not support item assignment''))))
            | _ \<Rightarrow>
                Inl (Raise TypeError
                  (''argument of type '' @ quoted (py_type_name request_data) @ '' is not iterable''))))"

definition internal_server_error :: response where
  "internal_server_error = JsonResponse (JObj [(''error'', JStr ''Internal server error'')]) 500"

text \<open>Lines 117 to 121: the upstream reply relayed as it came.\<close>

definition original_response :: "http_response \<Rightarrow> response" where
  "original_response upstream = Response (content upstream) (status upstream) (headers upstream)"

text \<open>
  The handler at lines 113 and 114. Its guarded block (lines 103 to 111) holds the
  decoding of the upstream body, the search for tool calls and the whole of
  \<^verbatim>\<open>handle_tool_calls\<close>: a \<^verbatim>\<open>JSONDecodeError\<close> raised anywhere in them is
  logged and the upstream reply is relayed; any other exception goes on to the outer
  handler.
\<close>

definition decode_handler :: "http_response \<Rightarrow> error \<Rightarrow> 'w \<Rightarrow> (error + response) \<times> 'w" where
  "decode_handler upstream e w =
     (if exc_class e = JSONDecodeError then (Inr (original_response upstream), w) else (Inl e, w))"

text \<open>
  The guarded block of \<^verbatim>\<open>proxy_request\<close> (lines 73 to 121): the upstream call, the
  streaming relay, and the buffered handling. An exception leaves as \<open>Inl\<close> and the
  handler at lines 123 to 125 turns it into the 500 response.
\<close>

definition forward_upstream :: "'w env \<Rightarrow> config \<Rightarrow> registry \<Rightarrow> string \<Rightarrow> request
    \<Rightarrow> (string \<times> string) list \<Rightarrow> json \<Rightarrow> 'w \<Rightarrow> (error + response) \<times> 'w" where
  "forward_upstream env cfg connected_servers url req hdrs request_data w =
     (case session_request env (request_method req) url hdrs
             (if body req \<noteq> [] then Some request_data else None) w of
        (Inl m, w1) \<Rightarrow> (Inl (Raise PlainException m), w1)
      | (Inr upstream, w1) \<Rightarrow>
          (case request_data of
             JObj kvs \<Rightarrow>
               if truthy (case map_of kvs ''stream'' of None \<Rightarrow> JBool False | Some v \<Rightarrow> v)
                  \<and> status upstream = 200
               then
                 (Inr (StreamResponse (status upstream)
                        [(''Content-Type'', ''text/event-stream''), (''Cache-Control'', ''no-cache''),
                         (''Connection'', ''keep-alive'')]
                        (content upstream)), w1)
               else if status upstream = 200 \<and> ENABLE_MCP cfg then
                 (case json_loads_bytes env (content upstream) of
                    Inl e \<Rightarrow> decode_handler upstream e w1
                  | Inr response_data \<Rightarrow>
                      (case parse_tools_from_response response_data of
                         Inl e \<Rightarrow> decode_handler upstream e w1
                       | Inr tool_calls \<Rightarrow>
                           if truthy tool_calls then
                             (case handle_tool_calls env cfg connected_servers tool_calls kvs hdrs w1 of
                                (Inl e, w2) \<Rightarrow> decode_handler upstream e w2
                              | (Inr processed_response, w2) \<Rightarrow>
                                  (Inr (JsonResponse processed_response 200), w2))
                           else (Inr (original_response upstream), w1)))
               else (Inr (original_response upstream), w1)
           | _ \<Rightarrow> (Inl (Raise AttributeError (no_attribute (py_type_name request_data) ''get'')), w1)))"

definition proxy_request :: "'w env \<Rightarrow> config \<Rightarrow> registry \<Rightarrow> string \<Rightarrow> request \<Rightarrow> bool \<Rightarrow> 'w
    \<Rightarrow> (error + response) \<times> 'w" where
  "proxy_request env cfg connected_servers path req inject_tools w =
     (case (if body req = [] then Inr (JObj []) else json_loads_bytes env (body req)) of
        Inl e \<Rightarrow>
          (if exc_class e = JSONDecodeError
           then (Inr (JsonResponse (JObj [(''error'', JStr ''Invalid JSON in request body'')]) 400), w)
           else (Inl e, w))
      | Inr decoded \<Rightarrow>
          (case inject_tools_into connected_servers inject_tools decoded of
             Inl e \<Rightarrow> (Inl e, w)
           | Inr request_data \<Rightarrow>
               (case forward_upstream env cfg connected_servers (OPENAI_API_BASE_URL cfg @ ''/'' @ path)
                       req (forward_headers (request_headers req)) request_data w of
                  (Inl e, w') \<Rightarrow> (Inr internal_server_error, w')
                | (Inr resp, w') \<Rightarrow> (Inr resp, w'))))"

definition chat_completions_handler :: "'w env \<Rightarrow> config \<Rightarrow> registry \<Rightarrow> request \<Rightarrow> 'w
    \<Rightarrow> (error + response) \<times> 'w" where
  "chat_completions_handler env cfg connected_servers req w =
     proxy_request env cfg connected_servers ''v1/chat/completions'' req True w"

section \<open>Client registry and startup (register.py, main.py)\<close>

text \<open>\<^verbatim>\<open>create_stdio_client\<close>: the parameters are the command,
  \<^verbatim>\<open>args or []\<close> and \<^verbatim>\<open>env or None\<close>.\<close>

definition field_value :: "(string \<times> json) list \<Rightarrow> string \<Rightarrow> json" where
  "field_value vs k = (case map_of vs k of None \<Rightarrow> JNull | Some v \<Rightarrow> v)"

definition create_stdio_client :: "string \<Rightarrow> (string \<times> json) list \<Rightarrow> mcp_client" where
  "create_stdio_client server_name vs =
     new_client server_name
       [(''command'', field_value vs ''command''),
        (''args'', if truthy (field_value vs ''args'') then field_value vs ''args'' else JArr []),
        (''env'', if truthy (field_value vs ''env'') then field_value vs ''env'' else JNull)]"

text \<open>
  \<^verbatim>\<open>MCPClientRegister.create_client\<close>: the \<^verbatim>\<open>ValueError\<close> of an unclassified
  descriptor and the \<^verbatim>\<open>NotImplementedError\<close> of the SSE creator are logged and give
  no client. A descriptor that is no dictionary has no \<^verbatim>\<open>keys\<close>, which none of the
  handlers catches.
\<close>

definition create_client :: "'w env \<Rightarrow> string \<Rightarrow> json \<Rightarrow> error + mcp_client option" where
  "create_client env server_name cfg_value =
     (case cfg_value of
        JObj config_dict \<Rightarrow>
          (case parse_config env config_dict of
             Inl e \<Rightarrow> Inr None
           | Inr (ServerConfig StdioServerConfig vs) \<Rightarrow> Inr (Some (create_stdio_client server_name vs))
           | Inr (ServerConfig SSEServerConfig vs) \<Rightarrow> Inr None)
      | _ \<Rightarrow> Inl (Raise AttributeError (no_attribute (py_type_name cfg_value) ''keys'')))"

fun create_clients :: "'w env \<Rightarrow> (string \<times> json) list \<Rightarrow> registry \<Rightarrow> error + registry" where
  "create_clients env [] clients = Inr clients"
| "create_clients env ((server_name, server_config) # rest) clients =
     (case create_client env server_name server_config of
        Inl e \<Rightarrow> Inl e
      | Inr None \<Rightarrow> create_clients env rest clients
      | Inr (Some client) \<Rightarrow> create_clients env rest (AList.update server_name client clients))"

text \<open>The body of the \<^verbatim>\<open>with\<close> block of \<^verbatim>\<open>load_mcp_servers\<close>, after the file is
  decoded.\<close>

definition clients_of_config :: "'w env \<Rightarrow> json \<Rightarrow> error + registry" where
  "clients_of_config env cfg_json =
     (if cfg_json = JNull then
        Inl (Raise ValueError
          ''MCP Config file is empty. Set ENV var 'ENABLE_MCP' if you wish to disable MCP proxy'')
      else (case py_get cfg_json ''mcpServers'' (JObj []) of
              Inl e \<Rightarrow> Inl e
            | Inr servers \<Rightarrow>
                (case servers of
                   JObj kvs \<Rightarrow> create_clients env kvs []
                 | _ \<Rightarrow> Inl (Raise AttributeError (no_attribute (py_type_name servers) ''items'')))))"

text \<open>
  \<^verbatim>\<open>load_mcp_servers\<close>. A missing file raises \<^verbatim>\<open>FileNotFoundError\<close> again.
  For a file that does not decode the handler builds a \<^verbatim>\<open>JSONDecodeError\<close> from
  one argument, which the constructor refuses with a \<^verbatim>\<open>TypeError\<close>. Everything else
  is raised again as a plain \<^verbatim>\<open>Exception\<close>.
\<close>

definition load_mcp_servers :: "'w env \<Rightarrow> string \<Rightarrow> error + registry" where
  "load_mcp_servers env path =
     (case read_file env path of
        Inl e \<Rightarrow>
          (if exc_class e = FileNotFoundError
           then Inl (Raise FileNotFoundError (''MCP Config file not found: '' @ path))
           else Inl (Raise PlainException (''Error loading MCP Config file: '' @ exc_str e)))
      | Inr text \<Rightarrow>
          (case json_loads env text of
             None \<Rightarrow>
               Inl (Raise TypeError
                 (''JSONDecodeError.__init__() missing 2 required positional arguments: ''
                   @ quoted ''doc'' @ '' and '' @ quoted ''pos''))
           | Some cfg_json \<Rightarrow>
               (case clients_of_config env cfg_json of
                  Inl e \<Rightarrow> Inl (Raise PlainException (''Error loading MCP Config file: '' @ exc_str e))
                | Inr clients \<Rightarrow> Inr clients)))"

text \<open>The inner loop of \<^verbatim>\<open>init_mcp_servers\<close>: a client that connects enters the
  registry, one that fails is logged.\<close>

fun connect_servers :: "'w env \<Rightarrow> registry \<Rightarrow> registry \<Rightarrow> 'w \<Rightarrow> registry \<times> 'w" where
  "connect_servers env [] connected_servers w = (connected_servers, w)"
| "connect_servers env ((server_name, mcp_server) # rest) connected_servers w =
     (case connect env mcp_server w of
        (Inr u, c', w') \<Rightarrow> connect_servers env rest (AList.update server_name c' connected_servers) w'
      | (Inl e, c', w') \<Rightarrow> connect_servers env rest connected_servers w')"

text \<open>
  \<^verbatim>\<open>init_mcp_servers\<close>, the startup hook. Its outer handler catches every exception of
  the loading and logs it; the hook then returns normally. The result is what the hook
  raises, or the registry it leaves.
\<close>

definition init_mcp_servers :: "'w env \<Rightarrow> config \<Rightarrow> registry \<Rightarrow> 'w \<Rightarrow> (error + registry) \<times> 'w" where
  "init_mcp_servers env cfg connected_servers w =
     (case load_mcp_servers env (MCP_CONFIG_PATH cfg) of
        Inl e \<Rightarrow> (Inr connected_servers, w)
      | Inr mcp_servers \<Rightarrow>
          (case connect_servers env mcp_servers connected_servers w of
             (connected, w') \<Rightarrow> (Inr connected, w')))"

text \<open>
  Startup as \<^verbatim>\<open>create_app\<close> and \<^verbatim>\<open>main\<close> arrange it: with tool orchestration
  enabled the hook runs before the listener starts, and an exception of a hook ends the
  process; otherwise the listener starts serving with the registry the hook left.
\<close>

datatype startup = Halted error | Serving registry

definition start_app :: "'w env \<Rightarrow> config \<Rightarrow> 'w \<Rightarrow> startup \<times> 'w" where
  "start_app env cfg w =
     (if ENABLE_MCP cfg then
        (case init_mcp_servers env cfg [] w of
           (Inl e, w') \<Rightarrow> (Halted e, w')
         | (Inr connected, w') \<Rightarrow> (Serving connected, w'))
      else (Serving [], w))"

text \<open>
  A tool call as the inference API emits it, \<^verbatim>\<open>{id, function: {name, arguments}}\<close>
  with the name and the arguments as strings: its identifier, qualified name and argument
  string. A call is well formed when its qualified name splits at dots into exactly two
  parts and its argument string is valid JSON.
\<close>

definition tool_call_shape :: "json \<Rightarrow> (json \<times> string \<times> string) option" where
  "tool_call_shape tool_call =
     (case tool_call of
        JObj kvs \<Rightarrow>
          (case (map_of kvs ''id'', map_of kvs ''function'') of
             (Some i, Some (JObj f)) \<Rightarrow>
               (case (map_of f ''name'', map_of f ''arguments'') of
                  (Some (JStr q), Some (JStr a)) \<Rightarrow> Some (i, q, a)
                | _ \<Rightarrow> None)
           | _ \<Rightarrow> None)
      | _ \<Rightarrow> None)"

definition well_formed_call :: "'w env \<Rightarrow> json \<Rightarrow> bool" where
  "well_formed_call env tool_call =
     (case tool_call_shape tool_call of
        None \<Rightarrow> False
      | Some (i, q, a) \<Rightarrow> length (split_on CHR ''.'' q) = 2 \<and> json_loads env a \<noteq> None)"

text \<open>What identifies a tool-result message: its role and the call it answers.\<close>

definition message_key :: "json \<Rightarrow> (error + json) \<times> (error + json)" where
  "message_key m = (py_getitem m ''role'', py_getitem m ''tool_call_id'')"

definition call_key :: "json \<Rightarrow> (error + json) \<times> (error + json)" where
  "call_key tool_call = (Inr (JStr ''tool''), py_getitem tool_call ''id'')"

section \<open>Strict matching, in the specification's words\<close>

text \<open>
  A descriptor matches a variant strictly when it has no field the variant does not
  declare, every field it gives has the declared type, and every field it leaves out has
  a default.
\<close>

fun field_ok :: "'w env \<Rightarrow> (string \<times> json) list \<Rightarrow> field \<Rightarrow> bool" where
  "field_ok env descriptor (Field n t d) =
     (case map_of descriptor n of
        Some v \<Rightarrow> is_instance env v t
      | None \<Rightarrow> d \<noteq> None)"

definition strict_match :: "'w env \<Rightarrow> config_type \<Rightarrow> (string \<times> json) list \<Rightarrow> bool" where
  "strict_match env variant descriptor =
     (list_all (\<lambda>k. k \<in> set (map field_name (fields_of variant))) (map fst descriptor)
      \<and> list_all (field_ok env descriptor) (fields_of variant))"

definition has_field :: "(string \<times> json) list \<Rightarrow> string \<Rightarrow> bool" where
  "has_field descriptor k = (k \<in> set (map fst descriptor))"

definition resolves_to :: "'w env \<Rightarrow> (string \<times> json) list \<Rightarrow> config_type \<Rightarrow> bool" where
  "resolves_to env descriptor variant =
     (case parse_config env descriptor of
        Inr (ServerConfig ct vs) \<Rightarrow> ct = variant
      | Inl e \<Rightarrow> False)"

definition classification_error :: "'w env \<Rightarrow> (string \<times> json) list \<Rightarrow> bool" where
  "classification_error env descriptor =
     (case parse_config env descriptor of
        Inr c \<Rightarrow> False
      | Inl e \<Rightarrow> exc_class e = ValueError)"

section \<open>Recording upstream replies\<close>

text \<open>
  The same collaborators over a world that also keeps, in order, what each call to the
  upstream API returned: nothing else changes, so a run over the recording world is the
  run over the world with the list of upstream replies beside it.
\<close>

definition recording :: "'w env \<Rightarrow> ('w \<times> (string + http_response) list) env" where
  "recording env =
     \<lparr>json_loads = json_loads env,
      json_loads_bytes = json_loads_bytes env,
      json_dumps = json_dumps env,
      float_str = float_str env,
      is_instance = is_instance env,
      read_file = read_file env,
      open_session = (\<lambda>n ps wl. case open_session env n ps (fst wl) of (r, w') \<Rightarrow> (r, (w', snd wl))),
      close_contexts = (\<lambda>n wl. case close_contexts env n (fst wl) of (r, w') \<Rightarrow> (r, (w', snd wl))),
      session_call_tool =
        (\<lambda>n t a wl. case session_call_tool env n t a (fst wl) of (r, w') \<Rightarrow> (r, (w', snd wl))),
      session_request =
        (\<lambda>m u h b wl. case session_request env m u h b (fst wl) of
                         (r, w') \<Rightarrow> (r, (w', snd wl @ [r])))\<rparr>"

text \<open>
  The tool calls a reply of the upstream API contains, as the loop reads them: the reply
  has status 200, its body decodes, and the decoded response carries a truthy
  \<open>tool_calls\<close>.
\<close>

definition round_tool_calls :: "'w env \<Rightarrow> string + http_response \<Rightarrow> json option" where
  "round_tool_calls env r =
     (case r of
        Inl m \<Rightarrow> None
      | Inr resp \<Rightarrow>
          if status resp = 200 then
            (case json_loads_bytes env (content resp) of
               Inl e \<Rightarrow> None
             | Inr parsed \<Rightarrow>
                 (case parse_tools_from_response parsed of
                    Inl e \<Rightarrow> None
                  | Inr tool_calls \<Rightarrow> if truthy tool_calls then Some tool_calls else None))
          else None)"

text \<open>A reply that contains tool calls, all of them well formed.\<close>

definition round_calls_well_formed :: "'w env \<Rightarrow> string + http_response \<Rightarrow> bool" where
  "round_calls_well_formed env r =
     (case round_tool_calls env r of
        Some (JArr calls) \<Rightarrow> list_all (well_formed_call env) calls
      | _ \<Rightarrow> False)"

text \<open>A request whose conversation, when it has one, is a list of messages.\<close>

definition conversation_is_list :: "(string \<times> json) list \<Rightarrow> bool" where
  "conversation_is_list request =
     (case map_of request ''messages'' of
        None \<Rightarrow> True
      | Some (JArr ms) \<Rightarrow> True
      | Some v \<Rightarrow> False)"

text \<open>The streaming flag of a request, as \<^verbatim>\<open>proxy_request\<close> reads it.\<close>

definition wants_stream :: "(string \<times> json) list \<Rightarrow> bool" where
  "wants_stream request = truthy (case map_of request ''stream'' of None \<Rightarrow> JBool False | Some v \<Rightarrow> v)"

section \<open>A concrete setting\<close>

text \<open>
  One provider \<open>files\<close> with the tool \<open>read\<close>, and an upstream API that answers from a
  script. The world holds the replies the upstream API has still to give, the bodies sent
  to it, and the tools invoked on providers.
\<close>

record world =
  pending :: "http_response list"
  posted :: "json option list"
  invoked :: "(string \<times> string) list"

definition call_files_read :: json where
  "call_files_read =
     JObj [(''id'', JStr ''c1''),
           (''function'', JObj [(''name'', JStr ''files.read''), (''arguments'', JStr ''{}'')])]"

definition call_ghost_run :: json where
  "call_ghost_run =
     JObj [(''id'', JStr ''c2''),
           (''function'', JObj [(''name'', JStr ''ghost.run''), (''arguments'', JStr ''{}'')])]"

definition call_bad_arguments :: json where
  "call_bad_arguments =
     JObj [(''id'', JStr ''c4''),
           (''function'', JObj [(''name'', JStr ''files.read''), (''arguments'', JStr ''{bad'')])]"

definition call_no_dot :: json where
  "call_no_dot =
     JObj [(''id'', JStr ''c3''),
           (''function'', JObj [(''name'', JStr ''read''), (''arguments'', JStr ''{}'')])]"

definition reply_with_calls :: "json \<Rightarrow> json" where
  "reply_with_calls calls = JObj [(''choices'', JArr [JObj [(''message'', JObj [(''tool_calls'', calls)])]])]"

definition reply_final :: json where
  "reply_final = JObj [(''choices'', JArr [JObj [(''message'', JObj [(''content'', JStr ''done'')])]])]"

definition demo_loads :: "string \<Rightarrow> json option" where
  "demo_loads =
     map_of
       [(''{}'', JObj []),
        (''null'', JNull),
        (''calls files.read'', reply_with_calls (JArr [call_files_read])),
        (''calls ghost.run'', reply_with_calls (JArr [call_ghost_run])),
        (''calls bad arguments'', reply_with_calls (JArr [call_bad_arguments])),
        (''final'', reply_final),
        (''request'', JObj [(''messages'', JArr [])])]"

fun demo_is_instance :: "json \<Rightarrow> field_type \<Rightarrow> bool" where
  "demo_is_instance v (TOptional t) = (v = JNull \<or> demo_is_instance v t)"
| "demo_is_instance (JStr s) TStr = True"
| "demo_is_instance (JInt i) TFloat = True"
| "demo_is_instance (JBool b) TFloat = True"
| "demo_is_instance (JFloat m e) TFloat = True"
| "demo_is_instance (JStr s) (TLiteral allowed) = (s \<in> set allowed)"
| "demo_is_instance (JArr xs) (TList t) = (\<forall>x \<in> set xs. demo_is_instance x t)"
| "demo_is_instance (JObj kvs) (TDict TStr t) = (\<forall>kv \<in> set kvs. demo_is_instance (snd kv) t)"
| "demo_is_instance v t = False"

definition demo_env :: "world env" where
  "demo_env =
     \<lparr>json_loads = demo_loads,
      json_loads_bytes = (\<lambda>b. case demo_loads b of
         None \<Rightarrow> Inl (Raise JSONDecodeError ''Expecting value: line 1 column 1 (char 0)'')
       | Some j \<Rightarrow> Inr j),
      json_dumps = (\<lambda>j. ''json''),
      float_str = (\<lambda>m e. ''float''),
      is_instance = demo_is_instance,
      read_file = (\<lambda>path. Inl (Raise FileNotFoundError ''No such file or directory'')),
      open_session = (\<lambda>n ps w.
         (if n = ''files'' then Listed [ToolObject ''read'' None None]
          else TransportFailed ''No such file or directory'', w)),
      close_contexts = (\<lambda>n w. (None, w)),
      session_call_tool = (\<lambda>n t a w.
         (if t = ''read'' then Inr [TextContent ''hello''] else Inl ''Unknown tool'',
          w\<lparr>invoked := invoked w @ [(n, t)]\<rparr>)),
      session_request = (\<lambda>m u h b w.
         (case pending w of
            [] \<Rightarrow> (Inl ''timeout'', w)
          | r # rs \<Rightarrow> (Inr r, w\<lparr>pending := rs, posted := posted w @ [b]\<rparr>)))\<rparr>"

definition reply :: "int \<Rightarrow> string \<Rightarrow> http_response" where
  "reply code text = \<lparr>status = code, headers = [], content = text\<rparr>"

definition world0 :: "http_response list \<Rightarrow> world" where
  "world0 script = \<lparr>pending = script, posted = [], invoked = []\<rparr>"

definition files_client :: mcp_client where
  "files_client =
     \<lparr>name = ''files'', state = CONNECTED, session = True, exit_stack = Some 2,
      mcp_tools = Some [ToolObject ''read'' None None],
      openai_tools = Some [], stdio_params = []\<rparr>"

definition demo_config :: config where
  "demo_config =
     \<lparr>OPENAI_API_BASE_URL = ''http://upstream'', ENABLE_MCP = True, MAX_ITERATION = 2,
      MCP_CONFIG_PATH = ''/config/mcp_config.json''\<rparr>"

definition demo_request :: request where
  "demo_request = \<lparr>request_method = ''POST'', request_headers = [], body = ''request''\<rparr>"

section \<open>Properties\<close>

lemma split_on_no_sep: "c \<notin> set s \<Longrightarrow> split_on c s = [s]"
  by (induction s) auto

lemma split_on_append_sep:
  "c \<notin> set a \<Longrightarrow> split_on c (a @ c # b) = a # split_on c b"
  by (induction a) auto

subsection \<open>Schema translator\<close>

lemma map_of_ensure_key:
  "map_of (ensure_key k v s) k' =
     (if k' = k then Some (case map_of s k of None \<Rightarrow> v | Some x \<Rightarrow> x) else map_of s k')"
  by (auto simp: ensure_key_def update_conv' dom_map_of_conv_image_fst [symmetric] domIff
           split: option.splits)

text \<open>
  Claim C9. For every input schema (a dictionary), the translated parameters hold the key
  \<open>type\<close>, with the schema's value or \<open>"object"\<close> when the schema has none,
  \<open>properties\<close>, with the schema's value or the empty dictionary, and \<open>required\<close>,
  with the schema's value or the empty list; every other key has the value the schema
  gives it, and no other key appears.
\<close>

theorem convert_input_schema_defaults:
  "\<exists>r. convert_input_schema (JObj schema) = Inr (JObj r)
     \<and> map_of r ''type'' = Some (case map_of schema ''type'' of None \<Rightarrow> JStr ''object'' | Some v \<Rightarrow> v)
     \<and> map_of r ''properties'' = Some (case map_of schema ''properties'' of None \<Rightarrow> JObj [] | Some v \<Rightarrow> v)
     \<and> map_of r ''required'' = Some (case map_of schema ''required'' of None \<Rightarrow> JArr [] | Some v \<Rightarrow> v)
     \<and> (\<forall>k. k \<notin> {''type'', ''properties'', ''required''} \<longrightarrow> map_of r k = map_of schema k)"
proof (cases "schema = []")
  case True
  then show ?thesis by (simp add: convert_input_schema_def)
next
  case False
  then show ?thesis by (simp add: convert_input_schema_def map_of_ensure_key)
qed

theorem convert_input_schema_defaults_witness:
  "convert_input_schema (JObj [(''title'', JStr ''t''), (''type'', JStr ''array'')])
     = Inr (JObj [(''title'', JStr ''t''), (''type'', JStr ''array''),
                  (''properties'', JObj []), (''required'', JArr [])])
   \<and> ''title'' \<notin> {''type'', ''properties'', ''required''}"
  using convert_input_schema_defaults [of "[(''title'', JStr ''t''), (''type'', JStr ''array'')]"]
  by (simp add: convert_input_schema_def ensure_key_def)

text \<open>
  Claim C8. When a tool is translated for a provider, the name it is exposed under is the
  provider's name, a dot, and the tool's own name; and when neither name contains a dot,
  the split step of the orchestration loop maps that qualified name back to the pair of
  the provider's name and the tool's own name.
\<close>

theorem qualified_name_round_trip:
  assumes "convert_single_tool namespace t = Inr translated"
    and "tool_name t = Some n"
    and "CHR ''.'' \<notin> set namespace" and "CHR ''.'' \<notin> set n"
  shows "(\<exists>f. py_getitem translated ''function'' = Inr f
              \<and> py_getitem f ''name'' = Inr (JStr (namespace @ ''.'' @ n)))
         \<and> py_split_name (JStr (namespace @ ''.'' @ n)) = Inr (namespace, n)"
proof -
  have "split_on CHR ''.'' (namespace @ ''.'' @ n) = [namespace, n]"
    using assms(3,4) by (simp add: split_on_append_sep split_on_no_sep)
  then have "py_split_name (JStr (namespace @ ''.'' @ n)) = Inr (namespace, n)"
    by (simp add: py_split_name_def split_tool_name_def)
  moreover have "\<exists>f. py_getitem translated ''function'' = Inr f
              \<and> py_getitem f ''name'' = Inr (JStr (namespace @ ''.'' @ n))"
    using assms(1,2)
    by (auto simp: convert_single_tool_def py_getitem_def qualified_name_def
             split: if_splits sum.splits)
  ultimately show ?thesis by blast
qed

theorem qualified_name_round_trip_witness:
  "convert_single_tool ''files'' (ToolObject ''read'' None None)
     = Inr (JObj [(''type'', JStr ''function''),
                  (''function'', JObj [(''name'', JStr ''files.read''),
                                       (''description'', JStr ''Execute read tool''),
                                       (''parameters'', JObj [(''type'', JStr ''object''),
                                          (''properties'', JObj []), (''required'', JArr [])])])])
   \<and> py_split_name (JStr ''files.read'') = Inr (''files'', ''read'')"
proof -
  have c: "convert_single_tool ''files'' (ToolObject ''read'' None None)
     = Inr (JObj [(''type'', JStr ''function''),
                  (''function'', JObj [(''name'', JStr ''files.read''),
                                       (''description'', JStr ''Execute read tool''),
                                       (''parameters'', JObj [(''type'', JStr ''object''),
                                          (''properties'', JObj []), (''required'', JArr [])])])])"
    by (simp add: convert_single_tool_def convert_input_schema_def qualified_name_def)
  have n: "tool_name (ToolObject ''read'' None None) = Some ''read''" by simp
  have d1: "CHR ''.'' \<notin> set ''files''" by simp
  have d2: "CHR ''.'' \<notin> set ''read''" by simp
  from qualified_name_round_trip [OF c n d1 d2] c show ?thesis by simp
qed

subsection \<open>Executing a batch of tool calls\<close>

lemma tool_call_shape_SomeD:
  assumes "tool_call_shape tc = Some (i, q, a)"
  shows "\<exists>kvs f. tc = JObj kvs \<and> map_of kvs ''id'' = Some i \<and> map_of kvs ''function'' = Some (JObj f)
      \<and> map_of f ''name'' = Some (JStr q) \<and> map_of f ''arguments'' = Some (JStr a)"
  using assms
  by (auto simp: tool_call_shape_def split: json.splits option.splits)

lemma split_on_two:
  "length (split_on c q) = 2 \<Longrightarrow> \<exists>ns t. split_on c q = [ns, t]"
  by (cases "split_on c q" rule: list.exhaust; simp; metis length_0_conv length_Suc_conv)

lemma run_tool_call_well_formed:
  assumes "well_formed_call env tc"
  shows "\<exists>m w'. run_tool_call env reg tc w = (Inr m, w') \<and> message_key m = call_key tc"
proof -
  from assms obtain i q a where sh: "tool_call_shape tc = Some (i, q, a)"
    and two: "length (split_on CHR ''.'' q) = 2" and js: "json_loads env a \<noteq> None"
    by (auto simp: well_formed_call_def split: option.splits)
  from tool_call_shape_SomeD [OF sh] obtain kvs f where
    tc: "tc = JObj kvs" "map_of kvs ''id'' = Some i" "map_of kvs ''function'' = Some (JObj f)"
        "map_of f ''name'' = Some (JStr q)" "map_of f ''arguments'' = Some (JStr a)" by blast
  from js obtain args where args: "json_loads env a = Some args" by auto
  from split_on_two [OF two] obtain ns t where sp: "split_on CHR ''.'' q = [ns, t]" by blast
  have fields: "tool_call_fields env tc = Inr (JStr q, args, i)"
    using tc args by (simp add: tool_call_fields_def py_getitem_def py_json_loads_def)
  have split: "py_split_name (JStr q) = Inr (ns, t)"
    using sp by (simp add: py_split_name_def split_tool_name_def)
  obtain r w' where d: "dispatch_tool env reg ns t args w = (r, w')"
    by (cases "dispatch_tool env reg ns t args w")
  show ?thesis
    using fields split d tc
    by (cases r)
       (simp_all add: run_tool_call_def message_key_def call_key_def tool_message_def py_getitem_def)
qed

lemma tool_call_fields_InrD:
  assumes "tool_call_fields env tc = Inr (qj, args, i)"
  shows "\<exists>kvs f a. tc = JObj kvs \<and> map_of kvs ''id'' = Some i \<and> map_of kvs ''function'' = Some (JObj f)
      \<and> map_of f ''name'' = Some qj \<and> map_of f ''arguments'' = Some (JStr a)
      \<and> json_loads env a = Some args"
  using assms
  by (auto simp: tool_call_fields_def py_getitem_def py_json_loads_def
           split: json.splits option.splits sum.splits)

lemma py_split_name_InrD:
  assumes "py_split_name qj = Inr (ns, t)"
  shows "\<exists>q. qj = JStr q \<and> split_on CHR ''.'' q = [ns, t]"
  using assms
  by (auto simp: py_split_name_def split_tool_name_def split: json.splits list.splits)

lemma run_tool_call_InrD:
  assumes "run_tool_call env reg tc w = (Inr m, w')"
  shows "well_formed_call env tc"
proof -
  from assms obtain qj args i where f: "tool_call_fields env tc = Inr (qj, args, i)"
    by (auto simp: run_tool_call_def split: sum.splits)
  with assms obtain ns t where sp: "py_split_name qj = Inr (ns, t)"
    by (auto simp: run_tool_call_def split: sum.splits)
  from tool_call_fields_InrD [OF f] py_split_name_InrD [OF sp]
  show ?thesis
    by (auto simp: well_formed_call_def tool_call_shape_def)
qed

lemma run_tool_call_Inl_world:
  assumes "run_tool_call env reg tc w = (Inl e, w')"
  shows "w' = w"
  using assms
  by (auto simp: run_tool_call_def split: sum.splits prod.splits)

lemma run_tool_call_not_well_formed:
  assumes "\<not> well_formed_call env tc"
  shows "\<exists>e. run_tool_call env reg tc w = (Inl e, w)"
proof (cases "run_tool_call env reg tc w")
  case (Pair r w')
  show ?thesis
  proof (cases r)
    case (Inl e)
    with Pair run_tool_call_Inl_world show ?thesis by fastforce
  next
    case (Inr m)
    with Pair assms run_tool_call_InrD show ?thesis by fastforce
  qed
qed

lemma run_tool_calls_append:
  "run_tool_calls env reg (xs @ ys) acc w =
     (case run_tool_calls env reg xs acc w of
        (Inl e, w') \<Rightarrow> (Inl e, w')
      | (Inr ms, w') \<Rightarrow> run_tool_calls env reg ys ms w')"
  by (induction xs arbitrary: acc w) (auto split: prod.splits sum.splits)

lemma run_tool_calls_well_formed:
  assumes "\<forall>tc \<in> set calls. well_formed_call env tc"
  shows "\<exists>msgs w'. run_tool_calls env reg calls acc w = (Inr (acc @ msgs), w')
            \<and> map message_key msgs = map call_key calls"
  using assms
proof (induction calls arbitrary: acc w)
  case Nil
  then show ?case by simp
next
  case (Cons tc calls)
  then have "well_formed_call env tc" by simp
  from run_tool_call_well_formed [OF this, of reg w]
  obtain m w1 where m: "run_tool_call env reg tc w = (Inr m, w1)" "message_key m = call_key tc"
    by blast
  from Cons.prems have "\<forall>tc \<in> set calls. well_formed_call env tc" by simp
  from Cons.IH [OF this, of "acc @ [m]" w1]
  obtain msgs w' where
    r: "run_tool_calls env reg calls (acc @ [m]) w1 = (Inr ((acc @ [m]) @ msgs), w')"
       "map message_key msgs = map call_key calls" by blast
  have "run_tool_calls env reg (tc # calls) acc w = (Inr (acc @ (m # msgs)), w')"
    using m(1) r(1) by simp
  moreover have "map message_key (m # msgs) = map call_key (tc # calls)"
    using m(2) r(2) by simp
  ultimately show ?case by blast
qed

text \<open>
  Claim C1. For every batch of N tool calls that are all well formed (the qualified name
  splits into exactly one provider and tool pair, the argument string is valid JSON),
  whatever the registry holds and whatever the providers answer or raise, executing the
  batch returns the assistant message followed by exactly N messages; the k-th of them
  has the role \<open>tool\<close> and the identifier of the k-th call.
\<close>

theorem batch_results_in_call_order:
  assumes "\<forall>tc \<in> set calls. well_formed_call env tc"
  shows "\<exists>msgs w'. execute_tool_calls env connected_servers (JArr calls) w
              = (Inr (assistant_message (JArr calls) # msgs), w')
          \<and> length msgs = length calls
          \<and> map message_key msgs = map call_key calls"
proof -
  from run_tool_calls_well_formed
    [OF assms, of connected_servers "[assistant_message (JArr calls)]" w]
  obtain msgs w' where
    r: "run_tool_calls env connected_servers calls [assistant_message (JArr calls)] w
          = (Inr ([assistant_message (JArr calls)] @ msgs), w')"
    and k: "map message_key msgs = map call_key calls" by blast
  from k have "length msgs = length calls" by (rule map_eq_imp_length_eq)
  with r k show ?thesis by (simp add: execute_tool_calls_def py_iter_def)
qed

lemmas demo_defs =
  demo_env_def demo_loads_def call_files_read_def call_ghost_run_def call_no_dot_def
  call_bad_arguments_def
  files_client_def world0_def reply_def reply_with_calls_def reply_final_def

lemmas batch_defs =
  execute_tool_calls_def py_iter_def run_tool_call_def tool_call_fields_def py_getitem_def
  py_json_loads_def py_split_name_def split_tool_name_def dispatch_tool_def call_tool_def
  is_connected_def tool_message_def result_content_def assistant_message_def no_attribute_def
  quoted_def

lemma well_formed_files_read: "well_formed_call demo_env call_files_read"
  by (simp add: well_formed_call_def tool_call_shape_def demo_defs)

lemma well_formed_ghost_run: "well_formed_call demo_env call_ghost_run"
  by (simp add: well_formed_call_def tool_call_shape_def demo_defs)

theorem batch_results_in_call_order_witness:
  "execute_tool_calls demo_env [(''files'', files_client)]
      (JArr [call_ghost_run, call_files_read]) (world0 [])
     = (Inr [assistant_message (JArr [call_ghost_run, call_files_read]),
             tool_message (JStr ''c2'')
               (''Error executing tool: '' @ no_attribute ''dict'' ''call_tool''),
             tool_message (JStr ''c1'') ''hello''],
        \<lparr>pending = [], posted = [], invoked = [(''files'', ''read'')]\<rparr>)"
proof -
  have wf: "\<forall>tc \<in> set [call_ghost_run, call_files_read]. well_formed_call demo_env tc"
    using well_formed_files_read well_formed_ghost_run by simp
  from batch_results_in_call_order [OF wf, of "[(''files'', files_client)]" "world0 []"]
  show ?thesis by (simp add: batch_defs demo_defs)
qed

text \<open>
  Claim C10. If a call of the batch has a qualified name that does not split into exactly
  two parts, or an argument string that is not valid JSON, then executing the batch
  raises and returns no message at all; the batch stops at or before that call: the world
  it leaves is the one reached by running only calls in front of it, so neither that call
  nor any later one reaches a provider.
\<close>

theorem malformed_call_aborts_batch:
  assumes "bad \<in> set calls"
    and "tool_call_shape bad = Some (i, q, a)"
    and "length (split_on CHR ''.'' q) \<noteq> 2 \<or> json_loads env a = None"
  shows "\<exists>e before rest msgs w'.
           calls = before @ rest \<and> bad \<in> set rest
         \<and> run_tool_calls env connected_servers before [assistant_message (JArr calls)] w
             = (Inr msgs, w')
         \<and> execute_tool_calls env connected_servers (JArr calls) w = (Inl e, w')"
proof -
  let ?wf = "well_formed_call env"
  let ?pre = "takeWhile ?wf calls" and ?rest = "dropWhile ?wf calls"
  have nwf: "\<not> ?wf bad" using assms(2,3) by (auto simp: well_formed_call_def)
  have dec: "calls = ?pre @ ?rest" by simp
  have "bad \<notin> set ?pre" using nwf by (auto dest: set_takeWhileD)
  with assms(1) have inrest: "bad \<in> set ?rest"
    by (metis Un_iff dec set_append)
  then obtain r rs where rest: "?rest = r # rs" by (cases ?rest) auto
  then have "\<not> ?wf r" by (metis hd_dropWhile list.sel(1) list.distinct(1))
  from run_tool_call_not_well_formed [OF this]
  have bad_raises: "\<And>w1. \<exists>e. run_tool_call env connected_servers r w1 = (Inl e, w1)" by blast
  have "\<forall>tc \<in> set ?pre. ?wf tc" by (auto dest: set_takeWhileD)
  from run_tool_calls_well_formed
    [OF this, of connected_servers "[assistant_message (JArr calls)]" w]
  obtain msgs w' where
    p: "run_tool_calls env connected_servers ?pre [assistant_message (JArr calls)] w
          = (Inr ([assistant_message (JArr calls)] @ msgs), w')" by blast
  from bad_raises [of w'] obtain e where
    e: "run_tool_call env connected_servers r w' = (Inl e, w')" by blast
  have "run_tool_calls env connected_servers (?pre @ ?rest) [assistant_message (JArr calls)] w
          = (Inl e, w')"
    using p e rest by (simp add: run_tool_calls_append)
  then have "execute_tool_calls env connected_servers (JArr calls) w = (Inl e, w')"
    by (simp add: execute_tool_calls_def py_iter_def)
  with dec inrest p show ?thesis by blast
qed

theorem malformed_call_aborts_batch_witness:
  "call_no_dot \<in> set [call_files_read, call_no_dot, call_files_read]
   \<and> tool_call_shape call_no_dot = Some (JStr ''c3'', ''read'', ''{}'')
   \<and> length (split_on CHR ''.'' ''read'') \<noteq> 2
   \<and> execute_tool_calls demo_env [(''files'', files_client)]
        (JArr [call_files_read, call_no_dot, call_files_read]) (world0 [])
       = (Inl (Raise ValueError ''not enough values to unpack (expected 2, got 1)''),
          \<lparr>pending = [], posted = [], invoked = [(''files'', ''read'')]\<rparr>)"
proof -
  have m: "call_no_dot \<in> set [call_files_read, call_no_dot, call_files_read]" by simp
  have s: "tool_call_shape call_no_dot = Some (JStr ''c3'', ''read'', ''{}'')"
    by (simp add: tool_call_shape_def demo_defs)
  have b: "length (split_on CHR ''.'' ''read'') \<noteq> 2
           \<or> json_loads demo_env ''{}'' = None" by simp
  from malformed_call_aborts_batch [OF m s b, of "[(''files'', files_client)]" "world0 []"]
  show ?thesis using s by (simp add: batch_defs demo_defs)
qed

subsection \<open>Config resolver\<close>

lemma build_fields_iff:
  "(\<exists>vs. build_fields (is_instance env) fs d = Inr vs) = list_all (field_ok env d) fs"
proof (induction fs)
  case Nil
  then show ?case by simp
next
  case (Cons f fs)
  obtain n t dflt where f: "f = Field n t dflt" by (cases f)
  show ?case
    using Cons.IH unfolding f
    by (cases "build_fields (is_instance env) fs d")
       (auto split: option.splits)
qed

lemma from_dict_iff:
  "(\<exists>vs. from_dict env variant d = Inr (ServerConfig variant vs)) = strict_match env variant d"
proof -
  have "(\<exists>vs. from_dict env variant d = Inr (ServerConfig variant vs))
      = (list_all (\<lambda>k. k \<in> set (map field_name (fields_of variant))) (map fst d)
         \<and> (\<exists>vs. build_fields (is_instance env) (fields_of variant) d = Inr vs))"
    by (auto simp: from_dict_def list_all_iff split: sum.splits)
  then show ?thesis by (simp add: build_fields_iff strict_match_def)
qed

lemma from_dict_class:
  "from_dict env variant d = Inr c \<Longrightarrow> \<exists>vs. c = ServerConfig variant vs"
  by (auto simp: from_dict_def split: if_splits sum.splits)

lemma from_dict_Inl_iff:
  "(\<exists>e. from_dict env variant d = Inl e) = (\<not> strict_match env variant d)"
proof -
  have "(\<exists>e. from_dict env variant d = Inl e) = (\<not> (\<exists>c. from_dict env variant d = Inr c))"
    by (cases "from_dict env variant d") auto
  also have "\<dots> = (\<not> (\<exists>vs. from_dict env variant d = Inr (ServerConfig variant vs)))"
    using from_dict_class by blast
  finally show ?thesis by (simp add: from_dict_iff)
qed

lemma url_not_stdio:
  "has_field d ''url'' \<Longrightarrow> \<not> strict_match env StdioServerConfig d"
  by (force simp: has_field_def strict_match_def list_all_iff)

lemma no_command_not_stdio:
  "\<not> has_field d ''command'' \<Longrightarrow> \<not> strict_match env StdioServerConfig d"
  by (auto simp: has_field_def strict_match_def map_of_eq_None_iff [symmetric]
           simp del: map_of_eq_None_iff)

lemma resolves_stdio_iff:
  "resolves_to env d StdioServerConfig = strict_match env StdioServerConfig d"
proof (cases "strict_match env StdioServerConfig d")
  case True
  then obtain vs where "from_dict env StdioServerConfig d = Inr (ServerConfig StdioServerConfig vs)"
    using from_dict_iff by blast
  with True show ?thesis by (simp add: resolves_to_def parse_config_def config_types_def)
next
  case False
  then obtain e where e: "from_dict env StdioServerConfig d = Inl e"
    using from_dict_Inl_iff by blast
  show ?thesis
  proof (cases "from_dict env SSEServerConfig d")
    case (Inl e2)
    with e False show ?thesis by (simp add: resolves_to_def parse_config_def config_types_def)
  next
    case (Inr c)
    then obtain vs where "c = ServerConfig SSEServerConfig vs" using from_dict_class by blast
    with e False Inr show ?thesis by (simp add: resolves_to_def parse_config_def config_types_def)
  qed
qed

lemma resolves_sse_iff:
  "resolves_to env d SSEServerConfig
     = (\<not> strict_match env StdioServerConfig d \<and> strict_match env SSEServerConfig d)"
proof (cases "strict_match env StdioServerConfig d")
  case True
  then obtain vs where "from_dict env StdioServerConfig d = Inr (ServerConfig StdioServerConfig vs)"
    using from_dict_iff by blast
  with True show ?thesis by (simp add: resolves_to_def parse_config_def config_types_def)
next
  case False
  then obtain e where e: "from_dict env StdioServerConfig d = Inl e"
    using from_dict_Inl_iff by blast
  show ?thesis
  proof (cases "from_dict env SSEServerConfig d")
    case (Inl e2)
    then have "\<not> strict_match env SSEServerConfig d" using from_dict_Inl_iff by blast
    with e False Inl show ?thesis by (simp add: resolves_to_def parse_config_def config_types_def)
  next
    case (Inr c)
    then obtain vs where c: "c = ServerConfig SSEServerConfig vs" using from_dict_class by blast
    with Inr have "strict_match env SSEServerConfig d" using from_dict_iff by blast
    with e False Inr c show ?thesis by (simp add: resolves_to_def parse_config_def config_types_def)
  qed
qed

lemma classification_error_iff:
  "classification_error env d
     = (\<not> strict_match env StdioServerConfig d \<and> \<not> strict_match env SSEServerConfig d)"
proof -
  have "classification_error env d
      = ((\<exists>e. from_dict env StdioServerConfig d = Inl e) \<and> (\<exists>e. from_dict env SSEServerConfig d = Inl e))"
    by (auto simp: classification_error_def parse_config_def config_types_def split: sum.splits)
  then show ?thesis by (simp add: from_dict_Inl_iff)
qed

text \<open>
  Claim C4, as stated, at a descriptor with a \<open>url\<close> field, no \<open>command\<close> field and a
  field the Sse variant does not declare: it does not resolve to the Sse variant, the
  resolver fails with the classification error.
\<close>

theorem url_descriptor_unclassified_counterexample:
  "has_field [(''url'', JStr ''http://h''), (''timeout'', JInt 5)] ''url''
   \<and> \<not> has_field [(''url'', JStr ''http://h''), (''timeout'', JInt 5)] ''command''
   \<and> \<not> resolves_to demo_env [(''url'', JStr ''http://h''), (''timeout'', JInt 5)] SSEServerConfig
   \<and> classification_error demo_env [(''url'', JStr ''http://h''), (''timeout'', JInt 5)]"
  by (simp add: has_field_def resolves_sse_iff classification_error_iff strict_match_def)

text \<open>
  Claim C4, amended. For every raw provider descriptor, the resolver tries the Stdio
  variant before the Sse variant under strict matching: it resolves to the Stdio variant
  exactly when the descriptor matches Stdio strictly, to the Sse variant exactly when it
  does not match Stdio and matches Sse strictly, and fails with the classification error
  exactly when it matches neither, so never both a variant and an error. A descriptor
  with a \<open>url\<close> field, or with no \<open>command\<close> field, never resolves to the Stdio variant;
  it resolves to the Sse variant when it matches Sse strictly and is refused otherwise.
\<close>

theorem parse_config_first_strict_match:
  "resolves_to env d StdioServerConfig = strict_match env StdioServerConfig d
   \<and> resolves_to env d SSEServerConfig
       = (\<not> strict_match env StdioServerConfig d \<and> strict_match env SSEServerConfig d)
   \<and> classification_error env d
       = (\<not> strict_match env StdioServerConfig d \<and> \<not> strict_match env SSEServerConfig d)
   \<and> (has_field d ''url'' \<or> \<not> has_field d ''command''
        \<longrightarrow> \<not> resolves_to env d StdioServerConfig
            \<and> resolves_to env d SSEServerConfig = strict_match env SSEServerConfig d
            \<and> classification_error env d = (\<not> strict_match env SSEServerConfig d))"
  using url_not_stdio [of d env] no_command_not_stdio [of d env]
  by (auto simp: resolves_stdio_iff resolves_sse_iff classification_error_iff)

theorem parse_config_first_strict_match_witness:
  "has_field [(''url'', JStr ''http://h'')] ''url''
   \<and> strict_match demo_env SSEServerConfig [(''url'', JStr ''http://h'')]
   \<and> parse_config demo_env [(''url'', JStr ''http://h'')]
       = Inr (ServerConfig SSEServerConfig
               [(''url'', JStr ''http://h''), (''transport'', JNull), (''headers'', JNull)])"
proof -
  have h: "has_field [(''url'', JStr ''http://h'')] ''url''" by (simp add: has_field_def)
  have s: "strict_match demo_env SSEServerConfig [(''url'', JStr ''http://h'')]"
    by (simp add: strict_match_def demo_env_def)
  from parse_config_first_strict_match [of demo_env "[(''url'', JStr ''http://h'')]"] h s
  show ?thesis
    by (simp add: parse_config_def config_types_def from_dict_def demo_env_def)
qed

subsection \<open>Tool client state machine\<close>

lemma aclose_state: "aclose env c w = (r, c', w') \<Longrightarrow> state c' = state c"
  by (auto simp: aclose_def split: option.splits if_splits prod.splits)

lemma connect_failed_state:
  "connect_failed env cause c w = (r, c', w') \<Longrightarrow> state c' = ERROR \<and> (\<exists>e. r = Inl e)"
  by (auto simp: connect_failed_def split: prod.splits option.splits dest!: aclose_state)

lemma connect_outcome:
  assumes "connect env c w = (r, c', w')"
  shows "(r = Inr () \<and> state c' = CONNECTED) \<or> ((\<exists>e. r = Inl e) \<and> state c' = ERROR)"
proof (cases "state c = CONNECTED")
  case True
  with assms show ?thesis by (auto simp: connect_def)
next
  case False
  obtain h w1 where h: "open_session env (name c) (stdio_params c) w = (h, w1)"
    by (cases "open_session env (name c) (stdio_params c) w")
  show ?thesis
  proof (cases h)
    case (Listed tools)
    show ?thesis
    proof (cases "convert_mcp_tools_to_openai (name c) tools")
      case (Inl e)
      with assms False h Listed show ?thesis
        by (auto simp: connect_def Let_def dest: connect_failed_state)
    next
      case (Inr converted)
      with assms False h Listed show ?thesis
        by (auto simp: connect_def Let_def)
    qed
  qed (use assms False h in \<open>auto simp: connect_def Let_def dest: connect_failed_state\<close>)
qed

lemma disconnect_outcome:
  assumes "disconnect env c w = (r, c', w')" and "state c \<noteq> DISCONNECTED"
  shows "(r = Inr () \<and> state c' = DISCONNECTED) \<or> ((\<exists>e. r = Inl e) \<and> state c' = state c)"
  using assms
  by (auto simp: disconnect_def split: prod.splits option.splits dest!: aclose_state)

text \<open>
  Claim C7, as stated, at a client in the state \<open>ERROR\<close> whose stack was closed by the
  failed connect: \<open>disconnect\<close> leaves it \<open>DISCONNECTED\<close>, and \<open>connect\<close> to a provider
  that now answers leaves it \<open>CONNECTED\<close>.
\<close>

theorem error_state_left_counterexample:
  "state (fst (snd (connect demo_env (new_client ''db'' []) (world0 [])))) = ERROR
   \<and> state (fst (snd (disconnect demo_env
              (fst (snd (connect demo_env (new_client ''db'' []) (world0 [])))) (world0 []))))
       = DISCONNECTED
   \<and> state (fst (snd (connect demo_env
              (files_client\<lparr>state := ERROR, session := False, exit_stack := Some 0\<rparr>) (world0 []))))
       = CONNECTED"
  by (simp add: connect_def connect_failed_def aclose_def disconnect_def new_client_def
        demo_env_def files_client_def convert_single_tool_def convert_input_schema_def)

lemma connect_failed_result:
  "\<exists>e c' w'. connect_failed env cause c w = (Inl e, c', w')
       \<and> state c' = ERROR \<and> (exit_stack c \<noteq> None \<longrightarrow> exit_stack c' = Some 0)"
  by (auto simp: connect_failed_def aclose_def split: prod.splits option.splits)

lemma failed_connect_leaves_error:
  assumes "connect env c0 w0 = (Inl e, c1, w1)"
  shows "state c1 = ERROR \<and> exit_stack c1 = Some 0"
proof -
  from assms have n: "state c0 \<noteq> CONNECTED" by (auto simp: connect_def)
  obtain h w' where h: "open_session env (name c0) (stdio_params c0) w0 = (h, w')"
    by (cases "open_session env (name c0) (stdio_params c0) w0")
  have f: "state c' = ERROR \<and> exit_stack c' = Some 0"
    if "connect_failed env cause c2 w' = (r, c', w'')" "exit_stack c2 \<noteq> None"
    for cause c2 r c' w''
    using connect_failed_result [of env cause c2 w'] that by auto
  show ?thesis
  proof (cases h)
    case (Listed tools)
    show ?thesis
    proof (cases "convert_mcp_tools_to_openai (name c0) tools")
      case (Inl e2)
      with assms n h Listed show ?thesis by (auto simp: connect_def Let_def dest!: f)
    next
      case (Inr converted)
      with assms n h Listed show ?thesis by (simp add: connect_def Let_def)
    qed
  qed (use assms n h in \<open>auto simp: connect_def Let_def dest!: f\<close>)
qed

text \<open>
  Claim C7, amended. A client is left in the state \<open>ERROR\<close> by a connect that failed,
  which has also emptied its stack (last clause). For such a client: \<open>listTools\<close> and
  \<open>callTool\<close> fail at once with the not-connected error, without reaching the provider (nothing is
  retried), and they cannot change the client; an explicit \<open>disconnect\<close> reaches
  nothing either and leaves the client \<open>DISCONNECTED\<close>; an explicit \<open>connect\<close> runs the
  connect sequence again on the provider and, when the provider lists its tools and they
  translate, leaves the client \<open>CONNECTED\<close> with those tools, and otherwise raises and
  leaves it \<open>ERROR\<close> with an empty stack again.
\<close>

theorem error_state_transitions:
  assumes "state c = ERROR" and "exit_stack c = Some 0"
  shows "list_tools c = Inl (Raise RuntimeError (''Not connected to '' @ name c))
       \<and> call_tool env c tool arguments w = (Inl (Raise RuntimeError (''Not connected to '' @ name c)), w)
       \<and> disconnect env c w = (Inr (), c\<lparr>session := False, state := DISCONNECTED\<rparr>, w)
       \<and> (case open_session env (name c) (stdio_params c) w of
            (Listed tools, w1) \<Rightarrow>
              (case convert_mcp_tools_to_openai (name c) tools of
                 Inr converted \<Rightarrow>
                   connect env c w
                     = (Inr (), c\<lparr>state := CONNECTED, exit_stack := Some 2, session := True,
                                 mcp_tools := Some tools, openai_tools := Some converted\<rparr>, w1)
               | Inl e \<Rightarrow>
                   (\<exists>e' c' w'. connect env c w = (Inl e', c', w')
                       \<and> state c' = ERROR \<and> exit_stack c' = Some 0))
          | (failed, w1) \<Rightarrow>
              (\<exists>e' c' w'. connect env c w = (Inl e', c', w')
                  \<and> state c' = ERROR \<and> exit_stack c' = Some 0))
       \<and> (connect env fresh w_before = (Inl cause, failed_client, w_after)
            \<longrightarrow> state failed_client = ERROR \<and> exit_stack failed_client = Some 0)"
proof -
  have 1: "list_tools c = Inl (Raise RuntimeError (''Not connected to '' @ name c))"
    using assms by (simp add: list_tools_def is_connected_def)
  have 2: "call_tool env c tool arguments w
             = (Inl (Raise RuntimeError (''Not connected to '' @ name c)), w)"
    using assms by (simp add: call_tool_def is_connected_def)
  have 3: "disconnect env c w = (Inr (), c\<lparr>session := False, state := DISCONNECTED\<rparr>, w)"
    using assms by (simp add: disconnect_def aclose_def)
  obtain h w1 where h: "open_session env (name c) (stdio_params c) w = (h, w1)"
    by (cases "open_session env (name c) (stdio_params c) w")
  have f: "\<exists>e' c' w'. connect_failed env cause c1 w1 = (Inl e', c', w')
              \<and> state c' = ERROR \<and> exit_stack c' = Some 0"
    if "exit_stack c1 \<noteq> None" for cause c1
    using connect_failed_result [of env cause c1 w1] that by blast
  have 4: "case open_session env (name c) (stdio_params c) w of
            (Listed tools, w1) \<Rightarrow>
              (case convert_mcp_tools_to_openai (name c) tools of
                 Inr converted \<Rightarrow>
                   connect env c w
                     = (Inr (), c\<lparr>state := CONNECTED, exit_stack := Some 2, session := True,
                                 mcp_tools := Some tools, openai_tools := Some converted\<rparr>, w1)
               | Inl e \<Rightarrow>
                   (\<exists>e' c' w'. connect env c w = (Inl e', c', w')
                       \<and> state c' = ERROR \<and> exit_stack c' = Some 0))
          | (failed, w1) \<Rightarrow>
              (\<exists>e' c' w'. connect env c w = (Inl e', c', w')
                  \<and> state c' = ERROR \<and> exit_stack c' = Some 0)"
  proof (cases h)
    case (Listed tools)
    show ?thesis
    proof (cases "convert_mcp_tools_to_openai (name c) tools")
      case (Inl e)
      with h Listed assms show ?thesis
        using f [of "c\<lparr>state := CONNECTING, exit_stack := Some 2, session := True,
                       mcp_tools := Some tools\<rparr>" "exc_str e"]
        by (simp add: connect_def Let_def)
    next
      case (Inr converted)
      with h Listed assms show ?thesis
        by (simp add: connect_def Let_def)
    qed
  next
    case (TransportFailed m)
    with h assms show ?thesis
      using f [of "c\<lparr>state := CONNECTING, exit_stack := Some 0\<rparr>" m]
      by (simp add: connect_def Let_def)
  next
    case (SessionFailed m)
    with h assms show ?thesis
      using f [of "c\<lparr>state := CONNECTING, exit_stack := Some 1\<rparr>" m]
      by (simp add: connect_def Let_def)
  next
    case (InitializeFailed m)
    with h assms show ?thesis
      using f [of "c\<lparr>state := CONNECTING, exit_stack := Some 2, session := True\<rparr>" m]
      by (simp add: connect_def Let_def)
  next
    case (ListToolsFailed m)
    with h assms show ?thesis
      using f [of "c\<lparr>state := CONNECTING, exit_stack := Some 2, session := True\<rparr>" m]
      by (simp add: connect_def Let_def)
  qed
  have 5: "connect env fresh w_before = (Inl cause, failed_client, w_after)
            \<longrightarrow> state failed_client = ERROR \<and> exit_stack failed_client = Some 0"
    by (rule impI) (rule failed_connect_leaves_error)
  from 1 2 3 4 5 show ?thesis by blast
qed

theorem error_state_transitions_witness:
  "fst (connect demo_env (new_client ''db'' []) (world0 []))
       = Inl (Raise MCPConnectionError ''No such file or directory'')
   \<and> state (fst (snd (connect demo_env (new_client ''db'' []) (world0 [])))) = ERROR
   \<and> state (files_client\<lparr>state := ERROR, session := False, exit_stack := Some 0\<rparr>) = ERROR
   \<and> exit_stack (files_client\<lparr>state := ERROR, session := False, exit_stack := Some 0\<rparr>) = Some 0
   \<and> call_tool demo_env (files_client\<lparr>state := ERROR, session := False, exit_stack := Some 0\<rparr>)
        ''read'' (JObj []) (world0 [])
       = (Inl (Raise RuntimeError ''Not connected to files''), world0 [])
   \<and> state (fst (snd (disconnect demo_env
        (files_client\<lparr>state := ERROR, session := False, exit_stack := Some 0\<rparr>) (world0 []))))
       = DISCONNECTED
   \<and> state (fst (snd (connect demo_env
        (files_client\<lparr>state := ERROR, session := False, exit_stack := Some 0\<rparr>) (world0 []))))
       = CONNECTED"
proof -
  let ?c = "files_client\<lparr>state := ERROR, session := False, exit_stack := Some 0\<rparr>"
  have e: "state ?c = ERROR" by simp
  have k: "exit_stack ?c = Some 0" by simp
  have n: "fst (connect demo_env (new_client ''db'' []) (world0 []))
             = Inl (Raise MCPConnectionError ''No such file or directory'')
           \<and> state (fst (snd (connect demo_env (new_client ''db'' []) (world0 [])))) = ERROR"
    by (simp add: connect_def connect_failed_def aclose_def new_client_def demo_env_def)
  from error_state_transitions [OF e k, of demo_env "''read''" "JObj []" "world0 []"] n
  show ?thesis
    by (simp add: files_client_def demo_env_def convert_single_tool_def convert_input_schema_def)
qed

subsection \<open>Startup\<close>

lemma init_mcp_servers_returns:
  "\<exists>connected w'. init_mcp_servers env cfg connected_servers w = (Inr connected, w')"
  by (auto simp: init_mcp_servers_def split: sum.splits prod.splits)

text \<open>
  Claim C6, as stated, at a descriptor file that does not exist: loading raises, but
  startup does not halt; the process starts serving with an empty registry.
\<close>

theorem missing_config_not_fatal_counterexample:
  "load_mcp_servers demo_env (MCP_CONFIG_PATH demo_config)
     = Inl (Raise FileNotFoundError ''MCP Config file not found: /config/mcp_config.json'')
   \<and> start_app demo_env demo_config (world0 []) = (Serving [], world0 [])"
  by (simp add: start_app_def init_mcp_servers_def load_mcp_servers_def demo_env_def
        demo_config_def)

text \<open>
  Claim C6, amended. If the provider-descriptor file is missing, unreadable, or
  syntactically invalid, loading the providers raises; the startup hook catches and logs
  that exception, so startup never halts: no provider is contacted and the process starts
  serving with an empty registry, from which no tool is injected into requests.
\<close>

theorem unusable_config_logged_not_fatal:
  assumes "(\<exists>e. read_file env (MCP_CONFIG_PATH cfg) = Inl e)
         \<or> (\<exists>text. read_file env (MCP_CONFIG_PATH cfg) = Inr text \<and> json_loads env text = None)"
    and "ENABLE_MCP cfg"
  shows "(\<exists>e. load_mcp_servers env (MCP_CONFIG_PATH cfg) = Inl e)
       \<and> start_app env cfg w = (Serving [], w)
       \<and> get_mcp_tools [] = Inr []"
proof -
  from assms(1) have "\<exists>e. load_mcp_servers env (MCP_CONFIG_PATH cfg) = Inl e"
    by (auto simp: load_mcp_servers_def)
  then obtain e where e: "load_mcp_servers env (MCP_CONFIG_PATH cfg) = Inl e" by blast
  then have "start_app env cfg w = (Serving [], w)"
    using assms(2) by (simp add: start_app_def init_mcp_servers_def)
  with e show ?thesis by simp
qed

theorem unusable_config_logged_not_fatal_witness:
  "read_file (demo_env\<lparr>read_file := (\<lambda>p. Inr ''{'')\<rparr>) (MCP_CONFIG_PATH demo_config) = Inr ''{''
   \<and> json_loads (demo_env\<lparr>read_file := (\<lambda>p. Inr ''{'')\<rparr>) ''{'' = None
   \<and> ENABLE_MCP demo_config
   \<and> start_app (demo_env\<lparr>read_file := (\<lambda>p. Inr ''{'')\<rparr>) demo_config (world0 [])
       = (Serving [], world0 [])"
proof -
  let ?env = "demo_env\<lparr>read_file := (\<lambda>p. Inr ''{'')\<rparr>"
  have r: "read_file ?env (MCP_CONFIG_PATH demo_config) = Inr ''{''" by simp
  have j: "json_loads ?env ''{'' = None" by (simp add: demo_env_def demo_loads_def)
  have a: "(\<exists>e. read_file ?env (MCP_CONFIG_PATH demo_config) = Inl e)
         \<or> (\<exists>text. read_file ?env (MCP_CONFIG_PATH demo_config) = Inr text
                \<and> json_loads ?env text = None)"
    using r j by simp
  have m: "ENABLE_MCP demo_config" by (simp add: demo_config_def)
  from unusable_config_logged_not_fatal [OF a m, of "world0 []"] r j m
  show ?thesis by simp
qed

subsection \<open>Unknown provider and failed follow-up, evaluated\<close>

text \<open>
  Claim C3 at the call \<open>ghost.run\<close> with no provider \<open>ghost\<close> in the registry. The
  batch is not aborted and one tool-result message is recorded, but its text is the
  failed attribute lookup on the empty dictionary that stands in for the missing client;
  it does not say that the tool does not exist.
\<close>

theorem unknown_provider_message_text:
  "map_of [(''files'', files_client)] ''ghost'' = None
   \<and> execute_tool_calls demo_env [(''files'', files_client)]
        (JArr [call_ghost_run, call_files_read]) (world0 [])
       = (Inr [assistant_message (JArr [call_ghost_run, call_files_read]),
               JObj [(''role'', JStr ''tool''), (''tool_call_id'', JStr ''c2''),
                     (''content'', JStr (''Error executing tool: 'dict' object has no attribute 'call_tool''
                                          @ [CHR 0x27]))],
               JObj [(''role'', JStr ''tool''), (''tool_call_id'', JStr ''c1''),
                     (''content'', JStr ''hello'')]],
          \<lparr>pending = [], posted = [], invoked = [(''files'', ''read'')]\<rparr>)"
  by (simp add: batch_defs demo_defs)

lemmas loop_defs =
  proxy_request_def forward_upstream_def inject_tools_into_def handle_tool_calls_def
  resolve_batch_def messages_copy_def messages_extend_def py_get_def
  parse_tools_from_response_def py_len_def py_first_def forward_headers_def
  internal_server_error_def demo_config_def chat_url_def numeral_2_eq_2
  decode_handler_def original_response_def

text \<open>
  Claim C2 at a request whose first upstream reply and first follow-up reply both carry
  tool calls and whose second follow-up reply has status 503: the caller receives, with
  status 200, the first follow-up reply, an intermediate round's response with its tool
  calls still unresolved, and not the upstream's 503 reply.
\<close>

theorem failed_follow_up_returns_stale_round:
  "fst (proxy_request demo_env demo_config [(''files'', files_client)] ''v1/chat/completions''
          demo_request True
          (world0 [reply 200 ''calls files.read'', reply 200 ''calls ghost.run'',
                   reply 503 ''overloaded'']))
     = Inr (JsonResponse (reply_with_calls (JArr [call_ghost_run])) 200)"
  by (simp add: loop_defs batch_defs demo_defs demo_request_def)

text \<open>
  The same request when the first follow-up reply already has status 503: the loop reads
  \<open>final_response\<close> before any round has bound it, and the caller receives the local
  500 response instead of the upstream's reply.
\<close>

lemma failed_first_follow_up_is_500:
  "fst (proxy_request demo_env demo_config [(''files'', files_client)] ''v1/chat/completions''
          demo_request True
          (world0 [reply 200 ''calls files.read'', reply 503 ''overloaded'']))
     = Inr internal_server_error"
  by (simp add: loop_defs batch_defs demo_defs demo_request_def)

subsection \<open>The resolution loop\<close>

lemma recording_simps [simp]:
  "json_loads (recording env) = json_loads env"
  "json_loads_bytes (recording env) = json_loads_bytes env"
  "json_dumps (recording env) = json_dumps env"
  "float_str (recording env) = float_str env"
  "session_call_tool (recording env) n t a (w, lg)
     = (case session_call_tool env n t a w of (r, w') \<Rightarrow> (r, (w', lg)))"
  "session_request (recording env) m u h b (w, lg)
     = (case session_request env m u h b w of (r, w') \<Rightarrow> (r, (w', lg @ [r])))"
  by (simp_all add: recording_def)

lemma call_tool_recording:
  "call_tool (recording env) c t a (w, lg)
     = (case call_tool env c t a w of (r, w') \<Rightarrow> (r, (w', lg)))"
  by (auto simp: call_tool_def split: prod.splits sum.splits list.splits content_item.splits)

lemma dispatch_tool_recording:
  "dispatch_tool (recording env) reg ns t a (w, lg)
     = (case dispatch_tool env reg ns t a w of (r, w') \<Rightarrow> (r, (w', lg)))"
  by (simp add: dispatch_tool_def call_tool_recording split: option.splits)

lemma py_json_loads_recording [simp]:
  "py_json_loads (recording env) v = py_json_loads env v"
  by (simp add: py_json_loads_def split: json.splits)

lemma tool_call_fields_recording [simp]:
  "tool_call_fields (recording env) tc = tool_call_fields env tc"
  by (simp add: tool_call_fields_def split: sum.splits)

lemma result_content_recording [simp]:
  "result_content (recording env) v = result_content env v"
  by (simp add: result_content_def split: json.splits)

lemma run_tool_call_recording:
  "run_tool_call (recording env) reg tc (w, lg)
     = (case run_tool_call env reg tc w of (r, w') \<Rightarrow> (r, (w', lg)))"
  by (auto simp: run_tool_call_def dispatch_tool_recording split: sum.splits prod.splits)

lemma run_tool_calls_recording:
  "run_tool_calls (recording env) reg calls acc (w, lg)
     = (case run_tool_calls env reg calls acc w of (r, w') \<Rightarrow> (r, (w', lg)))"
  by (induction calls arbitrary: acc w)
     (auto simp: run_tool_call_recording split: sum.splits prod.splits)

lemma execute_tool_calls_recording:
  "execute_tool_calls (recording env) reg tcs (w, lg)
     = (case execute_tool_calls env reg tcs w of (r, w') \<Rightarrow> (r, (w', lg)))"
  by (simp add: execute_tool_calls_def run_tool_calls_recording split: sum.splits)

lemma resolve_batch_recording:
  "resolve_batch (recording env) reg tcs request (w, lg)
     = (case resolve_batch env reg tcs request w of (r, w') \<Rightarrow> (r, (w', lg)))"
  by (auto simp: resolve_batch_def execute_tool_calls_recording split: sum.splits prod.splits)

lemma execute_tool_calls_well_formed:
  assumes "\<forall>tc \<in> set calls. well_formed_call env tc"
  shows "\<exists>msgs w'. execute_tool_calls env reg (JArr calls) w = (Inr msgs, w')"
  using run_tool_calls_well_formed [OF assms, of reg "[assistant_message (JArr calls)]" w]
  by (auto simp: execute_tool_calls_def py_iter_def)

lemma resolve_batch_well_formed:
  assumes "\<forall>tc \<in> set calls. well_formed_call env tc" and "conversation_is_list request"
  shows "\<exists>ms w'. resolve_batch env reg (JArr calls) (JObj request) w = (Inr ms, w')"
proof -
  from assms(2) obtain old where c: "messages_copy (JObj request) = Inr (JArr old)"
    by (auto simp: conversation_is_list_def messages_copy_def py_get_def
             split: option.splits json.splits)
  from execute_tool_calls_well_formed [OF assms(1), of reg w]
  obtain msgs w' where "execute_tool_calls env reg (JArr calls) w = (Inr msgs, w')" by blast
  with c show ?thesis by (simp add: resolve_batch_def messages_extend_def)
qed

lemma conversation_is_list_update [simp]:
  "conversation_is_list (AList.update ''messages'' (JArr ms) request)"
  by (simp add: conversation_is_list_def update_conv')

lemma conversation_is_list_delete [simp]:
  "conversation_is_list request \<Longrightarrow> conversation_is_list (AList.delete ''tool_choice'' request)"
  by (simp add: conversation_is_list_def delete_conv')

lemma round_calls_well_formedD:
  assumes "round_calls_well_formed env x"
  shows "\<exists>resp parsed calls. x = Inr resp \<and> status resp = 200
           \<and> json_loads_bytes env (content resp) = Inr parsed
           \<and> parse_tools_from_response parsed = Inr (JArr calls) \<and> truthy (JArr calls)
           \<and> (\<forall>tc \<in> set calls. well_formed_call env tc)"
  using assms
  by (auto simp: round_calls_well_formed_def round_tool_calls_def list_all_iff
           split: sum.splits if_splits option.splits json.splits)

text \<open>The step of the loop that goes on to the next round.\<close>

lemma follow_up_loop_continues:
  assumes "session_request env ''POST'' (chat_url cfg) hdrs (Some (JObj request)) w = (Inr resp, w1)"
    and "status resp = 200" and "json_loads_bytes env (content resp) = Inr parsed"
    and "parse_tools_from_response parsed = Inr tcs" and "truthy tcs"
    and "resolve_batch env reg tcs (JObj request) w1 = (Inr ms, w2)"
  shows "follow_up_loop env cfg reg hdrs (Suc n) request fr w
           = follow_up_loop env cfg reg hdrs n (AList.update ''messages'' (JArr ms) request)
               (Some parsed) w2"
  using assms by simp

lemma follow_up_loop_recording:
  assumes "conversation_is_list request"
  shows "\<exists>new. length new \<le> n
      \<and> follow_up_loop (recording env) cfg reg hdrs n request fr (w, lg)
          = (case follow_up_loop env cfg reg hdrs n request fr w of (r, w') \<Rightarrow> (r, (w', lg @ new)))
      \<and> (length new = n \<and> (0 < n \<longrightarrow> round_calls_well_formed env (last new))
           \<longrightarrow> fst (follow_up_loop env cfg reg hdrs n request fr w)
                 = Inl (Raise RuntimeError (max_iteration_msg cfg)))"
  using assms
proof (induction n arbitrary: request fr w lg)
  case 0
  then show ?case by simp
next
  case (Suc n)
  obtain x w1 where p: "session_request env ''POST'' (chat_url cfg) hdrs (Some (JObj request)) w = (x, w1)"
    by (cases "session_request env ''POST'' (chat_url cfg) hdrs (Some (JObj request)) w")
  let ?goes_on = "\<exists>resp parsed tcs ms w2. x = Inr resp \<and> status resp = 200
        \<and> json_loads_bytes env (content resp) = Inr parsed
        \<and> parse_tools_from_response parsed = Inr tcs \<and> truthy tcs
        \<and> resolve_batch env reg tcs (JObj request) w1 = (Inr ms, w2)"
  show ?case
  proof (cases ?goes_on)
    case True
    then obtain resp parsed tcs ms w2 where
      t: "x = Inr resp" "status resp = 200" "json_loads_bytes env (content resp) = Inr parsed"
         "parse_tools_from_response parsed = Inr tcs" "truthy tcs"
         "resolve_batch env reg tcs (JObj request) w1 = (Inr ms, w2)" by blast
    let ?next = "AList.update ''messages'' (JArr ms) request"
    have step: "follow_up_loop env cfg reg hdrs (Suc n) request fr w
                  = follow_up_loop env cfg reg hdrs n ?next (Some parsed) w2"
      using p t by simp
    have rstep: "follow_up_loop (recording env) cfg reg hdrs (Suc n) request fr (w, lg)
                  = follow_up_loop (recording env) cfg reg hdrs n ?next (Some parsed) (w2, lg @ [x])"
      using p t by (simp add: resolve_batch_recording)
    have "conversation_is_list ?next" by simp
    from Suc.IH [OF this, of "Some parsed" w2 "lg @ [x]"]
    obtain new where n1: "length new \<le> n"
      and n2: "follow_up_loop (recording env) cfg reg hdrs n ?next (Some parsed) (w2, lg @ [x])
          = (case follow_up_loop env cfg reg hdrs n ?next (Some parsed) w2 of
               (r, w') \<Rightarrow> (r, (w', (lg @ [x]) @ new)))"
      and n3: "length new = n \<and> (0 < n \<longrightarrow> round_calls_well_formed env (last new))
           \<longrightarrow> fst (follow_up_loop env cfg reg hdrs n ?next (Some parsed) w2)
                 = Inl (Raise RuntimeError (max_iteration_msg cfg))"
      by blast
    have a: "length (x # new) \<le> Suc n" using n1 by simp
    have b: "follow_up_loop (recording env) cfg reg hdrs (Suc n) request fr (w, lg)
          = (case follow_up_loop env cfg reg hdrs (Suc n) request fr w of
               (r, w') \<Rightarrow> (r, (w', lg @ (x # new))))"
      using rstep n2 step by simp
    have c: "fst (follow_up_loop env cfg reg hdrs (Suc n) request fr w)
                 = Inl (Raise RuntimeError (max_iteration_msg cfg))"
      if h: "length (x # new) = Suc n"
            "0 < Suc n \<longrightarrow> round_calls_well_formed env (last (x # new))"
    proof -
      from h(1) have l: "length new = n" by simp
      have "0 < n \<longrightarrow> round_calls_well_formed env (last new)"
      proof
        assume "0 < n"
        with l have "new \<noteq> []" by auto
        with h(2) show "round_calls_well_formed env (last new)" by simp
      qed
      with l n3 step show ?thesis by simp
    qed
    from a b c show ?thesis by blast
  next
    case False
    have b: "follow_up_loop (recording env) cfg reg hdrs (Suc n) request fr (w, lg)
          = (case follow_up_loop env cfg reg hdrs (Suc n) request fr w of
               (r, w') \<Rightarrow> (r, (w', lg @ [x])))"
      using p False
      by (auto simp: resolve_batch_recording split: option.splits sum.splits prod.splits)
    have c: "\<not> round_calls_well_formed env (last [x])"
    proof
      assume "round_calls_well_formed env (last [x])"
      then have "round_calls_well_formed env x" by simp
      from round_calls_well_formedD [OF this] obtain resp parsed calls where
        r: "x = Inr resp" "status resp = 200" "json_loads_bytes env (content resp) = Inr parsed"
           "parse_tools_from_response parsed = Inr (JArr calls)" "truthy (JArr calls)"
           "\<forall>tc \<in> set calls. well_formed_call env tc" by blast
      from resolve_batch_well_formed [OF r(6) Suc.prems, of reg w1]
      obtain ms w2 where "resolve_batch env reg (JArr calls) (JObj request) w1 = (Inr ms, w2)"
        by blast
      with r False show False by blast
    qed
    have a: "length [x] \<le> Suc n" by simp
    from a b c show ?thesis by (intro exI [of _ "[x]"]) simp
  qed
qed

lemma handle_tool_calls_recording:
  "\<exists>new. length new \<le> nat (MAX_ITERATION cfg)
      \<and> handle_tool_calls (recording env) cfg reg tcs request hdrs (w, lg)
          = (case handle_tool_calls env cfg reg tcs request hdrs w of
               (r, w') \<Rightarrow> (r, (w', lg @ new)))
      \<and> (0 < MAX_ITERATION cfg \<and> length new = nat (MAX_ITERATION cfg)
            \<and> round_calls_well_formed env (last new)
           \<longrightarrow> fst (handle_tool_calls env cfg reg tcs request hdrs w)
                 = Inl (Raise RuntimeError (max_iteration_msg cfg)))"
proof (cases "resolve_batch env reg tcs (JObj request) w")
  case (Pair x w1)
  show ?thesis
  proof (cases x)
    case (Inl e)
    with Pair have "handle_tool_calls (recording env) cfg reg tcs request hdrs (w, lg)
       = (case handle_tool_calls env cfg reg tcs request hdrs w of (r, w') \<Rightarrow> (r, (w', lg @ [])))"
      by (simp add: handle_tool_calls_def resolve_batch_recording)
    then show ?thesis by (intro exI [of _ "[]"]) auto
  next
    case (Inr ms)
    let ?req = "AList.delete ''tool_choice'' (AList.update ''messages'' (JArr ms) request)"
    have "conversation_is_list ?req" by simp
    from follow_up_loop_recording [OF this, of "nat (MAX_ITERATION cfg)" env cfg reg hdrs None w1 lg]
    obtain new where n: "length new \<le> nat (MAX_ITERATION cfg)"
      "follow_up_loop (recording env) cfg reg hdrs (nat (MAX_ITERATION cfg)) ?req None (w1, lg)
        = (case follow_up_loop env cfg reg hdrs (nat (MAX_ITERATION cfg)) ?req None w1 of
             (r, w') \<Rightarrow> (r, (w', lg @ new)))"
      "length new = nat (MAX_ITERATION cfg)
         \<and> (0 < nat (MAX_ITERATION cfg) \<longrightarrow> round_calls_well_formed env (last new))
       \<longrightarrow> fst (follow_up_loop env cfg reg hdrs (nat (MAX_ITERATION cfg)) ?req None w1)
            = Inl (Raise RuntimeError (max_iteration_msg cfg))"
      by blast
    with Pair Inr show ?thesis
      by (intro exI [of _ new]) (simp add: handle_tool_calls_def resolve_batch_recording)
  qed
qed

lemma proxy_request_raises:
  assumes "(if body req = [] then Inr (JObj []) else json_loads_bytes env (body req)) = Inr decoded"
    and "inject_tools_into reg inject decoded = Inr (JObj request)"
    and "session_request env (request_method req) (OPENAI_API_BASE_URL cfg @ ''/'' @ path)
           (forward_headers (request_headers req))
           (if body req \<noteq> [] then Some (JObj request) else None) w0 = (Inr upstream, w)"
    and "round_tool_calls env (Inr upstream) = Some tool_calls"
    and "ENABLE_MCP cfg" and "\<not> wants_stream request"
    and "handle_tool_calls env cfg reg tool_calls request (forward_headers (request_headers req)) w
           = (Inl e, w2)"
    and "exc_class e \<noteq> JSONDecodeError"
  shows "fst (proxy_request env cfg reg path req inject w0) = Inr internal_server_error"
proof -
  from assms(4) obtain parsed where
    u: "status upstream = 200" "json_loads_bytes env (content upstream) = Inr parsed"
       "parse_tools_from_response parsed = Inr tool_calls" "truthy tool_calls"
    by (auto simp: round_tool_calls_def split: if_splits sum.splits)
  have "forward_upstream env cfg reg (OPENAI_API_BASE_URL cfg @ ''/'' @ path) req
          (forward_headers (request_headers req)) (JObj request) w0 = (Inl e, w2)"
    using assms(3,5,6,7,8) u
    by (simp add: forward_upstream_def wants_stream_def decode_handler_def)
  then show ?thesis using assms(1,2) by (simp add: proxy_request_def)
qed

text \<open>
  Claim C5, as stated, at a configured maximum of one round whose reply still contains a
  tool call, with an argument string that is not valid JSON: the loop has made its one
  follow-up call and ends, not with the budget-exceeded error, but with the decoding
  error of the batch; and the caller receives no server error but the first upstream
  reply, relayed with its status 200.
\<close>

theorem last_round_decode_error_counterexample:
  "MAX_ITERATION (demo_config\<lparr>MAX_ITERATION := 1\<rparr>) = 1
   \<and> snd (snd (handle_tool_calls (recording demo_env) (demo_config\<lparr>MAX_ITERATION := 1\<rparr>)
          [(''files'', files_client)] (JArr [call_files_read])
          [(''messages'', JArr []), (''tools'', JArr [])] []
          (world0 [reply 200 ''calls bad arguments''], [])))
       = [Inr (reply 200 ''calls bad arguments'')]
   \<and> round_tool_calls demo_env (Inr (reply 200 ''calls bad arguments''))
       = Some (JArr [call_bad_arguments])
   \<and> fst (handle_tool_calls demo_env (demo_config\<lparr>MAX_ITERATION := 1\<rparr>)
          [(''files'', files_client)] (JArr [call_files_read])
          [(''messages'', JArr []), (''tools'', JArr [])] []
          (world0 [reply 200 ''calls bad arguments'']))
       = Inl (Raise JSONDecodeError ''Expecting value'')
   \<and> fst (proxy_request demo_env (demo_config\<lparr>MAX_ITERATION := 1\<rparr>) [(''files'', files_client)]
          ''v1/chat/completions'' demo_request True
          (world0 [reply 200 ''calls files.read'', reply 200 ''calls bad arguments'']))
       = Inr (Response ''calls files.read'' 200 [])"
  by (simp add: loop_defs batch_defs demo_defs demo_request_def call_bad_arguments_def
        round_tool_calls_def)

text \<open>
  Claim C5, amended. For every request, every registry and every behaviour of the
  upstream API and of the providers, \<open>handle_tool_calls\<close> returns, and the replies it
  has obtained from the upstream API, one per follow-up round, are at most the configured
  maximum. If the round at the configured maximum still contains tool calls and they are
  well formed, the loop ends with the budget-exceeded error; and a request that
  \<open>proxy_request\<close> hands to the loop and whose loop ends with that error is answered
  with the 500 response.
\<close>

theorem resolution_loop_bounded:
  assumes "handle_tool_calls (recording env) cfg connected_servers tool_calls request hdrs (w, [])
             = (r, (w', replies))"
  shows "handle_tool_calls env cfg connected_servers tool_calls request hdrs w = (r, w')
       \<and> length replies \<le> nat (MAX_ITERATION cfg)
       \<and> (0 < MAX_ITERATION cfg \<and> length replies = nat (MAX_ITERATION cfg)
            \<and> round_calls_well_formed env (last replies)
          \<longrightarrow> r = Inl (Raise RuntimeError (max_iteration_msg cfg)))
       \<and> (r = Inl (Raise RuntimeError (max_iteration_msg cfg))
            \<and> (if body req = [] then Inr (JObj []) else json_loads_bytes env (body req)) = Inr decoded
            \<and> inject_tools_into connected_servers inject decoded = Inr (JObj request)
            \<and> hdrs = forward_headers (request_headers req)
            \<and> session_request env (request_method req) (OPENAI_API_BASE_URL cfg @ ''/'' @ path) hdrs
                 (if body req \<noteq> [] then Some (JObj request) else None) w0 = (Inr upstream, w)
            \<and> round_tool_calls env (Inr upstream) = Some tool_calls
            \<and> ENABLE_MCP cfg \<and> \<not> wants_stream request
          \<longrightarrow> fst (proxy_request env cfg connected_servers path req inject w0)
                = Inr internal_server_error)"
proof -
  from handle_tool_calls_recording [of cfg env connected_servers tool_calls request hdrs w "[]"]
  obtain new where n: "length new \<le> nat (MAX_ITERATION cfg)"
    "handle_tool_calls (recording env) cfg connected_servers tool_calls request hdrs (w, [])
       = (case handle_tool_calls env cfg connected_servers tool_calls request hdrs w of
            (r, w') \<Rightarrow> (r, (w', [] @ new)))"
    "0 < MAX_ITERATION cfg \<and> length new = nat (MAX_ITERATION cfg)
       \<and> round_calls_well_formed env (last new)
     \<longrightarrow> fst (handle_tool_calls env cfg connected_servers tool_calls request hdrs w)
          = Inl (Raise RuntimeError (max_iteration_msg cfg))"
    by blast
  from n(2) assms have 1: "handle_tool_calls env cfg connected_servers tool_calls request hdrs w = (r, w')"
    and eq: "replies = new"
    by (auto split: prod.splits)
  from n(1) eq have 2: "length replies \<le> nat (MAX_ITERATION cfg)" by simp
  from n(3) eq 1 have 3: "0 < MAX_ITERATION cfg \<and> length replies = nat (MAX_ITERATION cfg)
            \<and> round_calls_well_formed env (last replies)
          \<longrightarrow> r = Inl (Raise RuntimeError (max_iteration_msg cfg))" by simp
  have 4: "fst (proxy_request env cfg connected_servers path req inject w0) = Inr internal_server_error"
    if "r = Inl (Raise RuntimeError (max_iteration_msg cfg))"
       "(if body req = [] then Inr (JObj []) else json_loads_bytes env (body req)) = Inr decoded"
       "inject_tools_into connected_servers inject decoded = Inr (JObj request)"
       "hdrs = forward_headers (request_headers req)"
       "session_request env (request_method req) (OPENAI_API_BASE_URL cfg @ ''/'' @ path) hdrs
                 (if body req \<noteq> [] then Some (JObj request) else None) w0 = (Inr upstream, w)"
       "round_tool_calls env (Inr upstream) = Some tool_calls"
       "ENABLE_MCP cfg" "\<not> wants_stream request"
  proof -
    have h: "handle_tool_calls env cfg connected_servers tool_calls request
               (forward_headers (request_headers req)) w
             = (Inl (Raise RuntimeError (max_iteration_msg cfg)), w')"
      using 1 that(1,4) by simp
    have s: "session_request env (request_method req) (OPENAI_API_BASE_URL cfg @ ''/'' @ path)
           (forward_headers (request_headers req))
           (if body req \<noteq> [] then Some (JObj request) else None) w0 = (Inr upstream, w)"
      using that(4,5) by simp
    have k: "exc_class (Raise RuntimeError (max_iteration_msg cfg)) \<noteq> JSONDecodeError" by simp
    from proxy_request_raises [OF that(2,3) s that(6,7,8) h k] show ?thesis .
  qed
  from 1 2 3 4 show ?thesis by blast
qed

theorem resolution_loop_bounded_witness:
  "handle_tool_calls (recording demo_env) demo_config [(''files'', files_client)]
       (JArr [call_files_read]) [(''messages'', JArr []), (''tools'', JArr [])] []
       (\<lparr>pending = [reply 200 ''calls files.read'', reply 200 ''calls ghost.run''],
         posted = [Some (JObj [(''messages'', JArr []), (''tools'', JArr [])])],
         invoked = []\<rparr>, [])
     = (Inl (Raise RuntimeError (max_iteration_msg demo_config)),
        (snd (handle_tool_calls demo_env demo_config [(''files'', files_client)]
               (JArr [call_files_read]) [(''messages'', JArr []), (''tools'', JArr [])] []
               \<lparr>pending = [reply 200 ''calls files.read'', reply 200 ''calls ghost.run''],
                posted = [Some (JObj [(''messages'', JArr []), (''tools'', JArr [])])],
                invoked = []\<rparr>),
         [Inr (reply 200 ''calls files.read''), Inr (reply 200 ''calls ghost.run'')]))
   \<and> 0 < MAX_ITERATION demo_config
   \<and> length [Inr (reply 200 ''calls files.read''), Inr (reply 200 ''calls ghost.run'')]
       = nat (MAX_ITERATION demo_config)
   \<and> round_calls_well_formed demo_env (Inr (reply 200 ''calls ghost.run''))
   \<and> round_tool_calls demo_env (Inr (reply 200 ''calls files.read'')) = Some (JArr [call_files_read])
   \<and> ENABLE_MCP demo_config
   \<and> \<not> wants_stream [(''messages'', JArr []), (''tools'', JArr [])]
   \<and> fst (proxy_request demo_env demo_config [(''files'', files_client)]
            ''v1/chat/completions'' demo_request True
            (world0 [reply 200 ''calls files.read'', reply 200 ''calls files.read'',
                     reply 200 ''calls ghost.run'']))
       = Inr internal_server_error"
proof -
  let ?reg = "[(''files'', files_client)]"
  let ?req = "[(''messages'', JArr []), (''tools'', JArr [])]"
  let ?w = "\<lparr>pending = [reply 200 ''calls files.read'', reply 200 ''calls ghost.run''],
             posted = [Some (JObj ?req)], invoked = []\<rparr>"
  let ?replies = "[Inr (reply 200 ''calls files.read''), Inr (reply 200 ''calls ghost.run'')]
                    :: (string + http_response) list"
  have run: "handle_tool_calls (recording demo_env) demo_config ?reg (JArr [call_files_read]) ?req []
               (?w, [])
             = (Inl (Raise RuntimeError (max_iteration_msg demo_config)),
                (snd (handle_tool_calls demo_env demo_config ?reg (JArr [call_files_read]) ?req [] ?w),
                 ?replies))"
    by (simp add: loop_defs batch_defs demo_defs)
  have m: "0 < MAX_ITERATION demo_config" "length ?replies = nat (MAX_ITERATION demo_config)"
    "ENABLE_MCP demo_config"
    by (simp_all add: demo_config_def)
  have wf: "round_calls_well_formed demo_env (Inr (reply 200 ''calls ghost.run''))"
    by (simp add: round_calls_well_formed_def round_tool_calls_def well_formed_call_def
          tool_call_shape_def parse_tools_from_response_def py_get_def py_len_def py_first_def
          demo_defs)
  have first: "round_tool_calls demo_env (Inr (reply 200 ''calls files.read''))
                 = Some (JArr [call_files_read])"
    by (simp add: round_tool_calls_def parse_tools_from_response_def py_get_def py_len_def
          py_first_def demo_defs)
  have s: "\<not> wants_stream ?req" by (simp add: wants_stream_def)
  have d: "(if body demo_request = [] then Inr (JObj []) else json_loads_bytes demo_env (body demo_request))
             = Inr (JObj [(''messages'', JArr [])])"
    by (simp add: demo_request_def demo_defs)
  have i: "inject_tools_into ?reg True (JObj [(''messages'', JArr [])]) = Inr (JObj ?req)"
    by (simp add: inject_tools_into_def files_client_def)
  have h: "([] :: (string \<times> string) list) = forward_headers (request_headers demo_request)"
    by (simp add: forward_headers_def demo_request_def)
  have u: "session_request demo_env (request_method demo_request)
             (OPENAI_API_BASE_URL demo_config @ ''/'' @ ''v1/chat/completions'') []
             (if body demo_request \<noteq> [] then Some (JObj ?req) else None)
             (world0 [reply 200 ''calls files.read'', reply 200 ''calls files.read'',
                      reply 200 ''calls ghost.run''])
           = (Inr (reply 200 ''calls files.read''), ?w)"
    by (simp add: demo_env_def demo_request_def world0_def)
  from resolution_loop_bounded [OF run, of demo_request "JObj [(''messages'', JArr [])]" True
      "''v1/chat/completions''"
      "world0 [reply 200 ''calls files.read'', reply 200 ''calls files.read'',
               reply 200 ''calls ghost.run'']" "reply 200 ''calls files.read''"]
    m wf first s d i h u
  have "fst (proxy_request demo_env demo_config ?reg ''v1/chat/completions'' demo_request True
            (world0 [reply 200 ''calls files.read'', reply 200 ''calls files.read'',
                     reply 200 ''calls ghost.run''])) = Inr internal_server_error"
    by simp
  with run m wf first s show ?thesis by simp
qed

end
